theory Spec2Isabelle
  imports Main
begin

section \<open>The AddonsLayer resource (package kraanv1alpha1)\<close>

text \<open>
  The Go package \<open>pkg/api/v1alpha1\<close> holds the resource types and the string constants
  used by \<open>layers.go\<close> and by the controller. Its source is not among the files verified
  here, so the types are rebuilt from the field accesses made in \<open>layers.go\<close>
  (\<open>Spec.Version\<close>, \<open>Spec.Hold\<close>, \<open>Spec.PreReqs.K8sVersion\<close>, \<open>Spec.Interval.Duration\<close>,
  \<open>Spec.Source.{NameSpace,Name,Path}\<close>, \<open>Status.{State,Version,Conditions}\<close>,
  \<open>ObjectMeta.Name\<close>). Record fields are global names in HOL, so the three \<open>Version\<close>
  fields and the condition's \<open>Status\<close> carry a prefix. A Go \<open>error\<close> is modelled by its
  message (\<open>err.Error()\<close>), \<open>nil\<close> by \<open>None\<close>; a \<open>time.Duration\<close> and a timestamp are
  natural numbers.
\<close>

record Condition =
  Type :: string
  CondVersion :: string
  CondStatus :: string
  LastTransitionTime :: nat
  Reason :: string
  Message :: string

record SourceSpec =
  NameSpace :: string
  SourceName :: string
  Path :: string

record AddonsLayerSpec =
  Source :: SourceSpec
  SpecVersion :: string
  Hold :: bool
  K8sVersion :: string
  Interval :: nat

record AddonsLayerStatus =
  State :: string
  StatusVersion :: string
  Conditions :: "Condition list"

record AddonsLayer =
  Name :: string
  Spec :: AddonsLayerSpec
  Status :: AddonsLayerStatus

text \<open>\<open>corev1.ConditionTrue\<close> of the Kubernetes core API.\<close>

definition ConditionTrue :: string where
  "ConditionTrue = ''True''"

text \<open>
  The condition type constants of package \<open>kraanv1alpha1\<close> (\<open>HoldCondition\<close>,
  \<open>K8sVersionCondition\<close>, ...) are among the missing declarations. The spec enumerates
  the states as
  \<open>Hold | WaitingForClusterVersion | PrunePending | Pruning | Pruned | ApplyPending |
  Applying | Deployed | Failed\<close>; each constant is taken to be the string of that name.
\<close>

text \<open>Modelled from the spec: the constant \<open>HoldCondition\<close>, whose declaration is missing; it is
  the state \<open>Hold\<close> of the enumeration.\<close>

definition HoldCondition :: string where
  "HoldCondition = ''Hold''"

text \<open>Modelled from the spec: the constant \<open>K8sVersionCondition\<close>, whose declaration is missing; it is
  the state \<open>WaitingForClusterVersion\<close> of the enumeration.\<close>

definition K8sVersionCondition :: string where
  "K8sVersionCondition = ''WaitingForClusterVersion''"

text \<open>Modelled from the spec: the constant \<open>PrunePendingCondition\<close>, whose declaration is missing; it is
  the state \<open>PrunePending\<close> of the enumeration.\<close>

definition PrunePendingCondition :: string where
  "PrunePendingCondition = ''PrunePending''"

text \<open>Modelled from the spec: the constant \<open>PruningCondition\<close>, whose declaration is missing; it is
  the state \<open>Pruning\<close> of the enumeration.\<close>

definition PruningCondition :: string where
  "PruningCondition = ''Pruning''"

text \<open>Modelled from the spec: the constant \<open>PrunedCondition\<close>, whose declaration is missing; it is
  the state \<open>Pruned\<close> of the enumeration.\<close>

definition PrunedCondition :: string where
  "PrunedCondition = ''Pruned''"

text \<open>Modelled from the spec: the constant \<open>ApplyPendingCondition\<close>, whose declaration is missing; it is
  the state \<open>ApplyPending\<close> of the enumeration.\<close>

definition ApplyPendingCondition :: string where
  "ApplyPendingCondition = ''ApplyPending''"

text \<open>Modelled from the spec: the constant \<open>ApplyingCondition\<close>, whose declaration is missing; it is
  the state \<open>Applying\<close> of the enumeration.\<close>

definition ApplyingCondition :: string where
  "ApplyingCondition = ''Applying''"

text \<open>Modelled from the spec: the constant \<open>DeployedCondition\<close>, whose declaration is missing; it is
  the state \<open>Deployed\<close> of the enumeration.\<close>

definition DeployedCondition :: string where
  "DeployedCondition = ''Deployed''"

text \<open>Modelled from the spec: the constant \<open>FailedCondition\<close>, whose declaration is missing; it is
  the state \<open>Failed\<close> of the enumeration.\<close>

definition FailedCondition :: string where
  "FailedCondition = ''Failed''"

text \<open>
  The reason and message texts of package \<open>kraanv1alpha1\<close> are missing as well, and the
  spec does not give them. They are taken as a parameter: every function that uses one
  receives the record \<open>k\<close> of these texts, and every theorem holds for all of them.
\<close>

record v1alpha1_texts =
  AddonsLayerK8sVersionReason :: string
  AddonsLayerK8sVersionMsg :: string
  AddonsLayerDeployedReason :: string
  AddonsLayerApplyPendingReason :: string
  AddonsLayerApplyPendingMsg :: string
  AddonsLayerApplyingReason :: string
  AddonsLayerApplyingMsg :: string
  AddonsLayerPrunePendingReason :: string
  AddonsLayerPrunePendingMsg :: string
  AddonsLayerPrunedReason :: string
  AddonsLayerPrunedMsg :: string
  AddonsLayerPruningReason :: string
  AddonsLayerPruningMsg :: string
  AddonsLayerHoldReason :: string
  AddonsLayerHoldMsg :: string
  AddonsLayerFailedReason :: string


section \<open>The layer object (layers.go)\<close>

text \<open>
  \<open>MaxConditions\<close> is declared as the maximum number of conditions to retain.
\<close>

definition MaxConditions :: nat where
  "MaxConditions = 10"

definition rootPath :: string where
  "rootPath = ''/repos''"

text \<open>
  The Kubernetes client set of a layer is used for one thing only, the discovery call
  \<open>ServerVersion()\<close>. It is modelled by the answer of that call: \<open>Inl msg\<close> when the call
  fails with an error of that message, \<open>Inr v\<close> when it returns version information whose
  \<open>String()\<close> is \<open>v\<close>.
\<close>

record Clientset =
  ServerVersion :: "string + string"

text \<open>
  \<open>KraanLayer\<close>: the pass-scoped flags, the delay, the client set and the wrapped resource.
  The context, the generic client and the logger play no part in the functions below
  and are left out; logging calls are dropped.
\<close>

record KraanLayer =
  updated :: bool
  requeue :: bool
  delayed :: bool
  delay :: nat
  k8client :: Clientset
  addonsLayer :: AddonsLayer

definition CreateLayer :: "Clientset \<Rightarrow> AddonsLayer \<Rightarrow> KraanLayer" where
  "CreateLayer kc al =
     \<lparr>updated = False, requeue = False, delayed = False,
      delay = Interval (Spec al), k8client = kc, addonsLayer = al\<rparr>"

definition SetRequeue :: "KraanLayer \<Rightarrow> KraanLayer" where
  "SetRequeue l = l\<lparr>requeue := True\<rparr>"

definition SetUpdated :: "KraanLayer \<Rightarrow> KraanLayer" where
  "SetUpdated l = l\<lparr>updated := True\<rparr>"

definition SetDelayed :: "KraanLayer \<Rightarrow> KraanLayer" where
  "SetDelayed l = l\<lparr>delayed := True\<rparr>"

definition GetFullStatus :: "KraanLayer \<Rightarrow> AddonsLayerStatus" where
  "GetFullStatus l = Status (addonsLayer l)"

definition GetSpec :: "KraanLayer \<Rightarrow> AddonsLayerSpec" where
  "GetSpec l = Spec (addonsLayer l)"

definition GetAddonsLayer :: "KraanLayer \<Rightarrow> AddonsLayer" where
  "GetAddonsLayer l = addonsLayer l"

definition GetRequiredK8sVersion :: "KraanLayer \<Rightarrow> string" where
  "GetRequiredK8sVersion l = K8sVersion (Spec (addonsLayer l))"

definition getK8sClient :: "KraanLayer \<Rightarrow> Clientset" where
  "getK8sClient l = k8client l"

definition GetStatus :: "KraanLayer \<Rightarrow> string" where
  "GetStatus l = State (Status (addonsLayer l))"

definition IsHold :: "KraanLayer \<Rightarrow> bool" where
  "IsHold l = Hold (Spec (addonsLayer l))"

definition IsUpdated :: "KraanLayer \<Rightarrow> bool" where
  "IsUpdated l = updated l"

definition IsDelayed :: "KraanLayer \<Rightarrow> bool" where
  "IsDelayed l = delayed l"

definition NeedsRequeue :: "KraanLayer \<Rightarrow> bool" where
  "NeedsRequeue l = requeue l"

definition GetDelay :: "KraanLayer \<Rightarrow> nat" where
  "GetDelay l = delay l"

definition GetName :: "KraanLayer \<Rightarrow> string" where
  "GetName l = Name (addonsLayer l)"

text \<open>
  Go compares strings with \<open>>\<close> byte by byte, a proper prefix being the smaller string.
  \<open>string_gt a b\<close> is \<open>a > b\<close>.
\<close>

fun string_gt :: "string \<Rightarrow> string \<Rightarrow> bool" where
  "string_gt [] b = False"
| "string_gt (x # xs) [] = True"
| "string_gt (x # xs) (y # ys) =
     (if (of_char x :: nat) > of_char y then True
      else if (of_char x :: nat) < of_char y then False
      else string_gt xs ys)"

text \<open>
  \<open>setStatus\<close> appends a condition, then sets the state, the observed version and the two
  flags. The call to \<open>trimConditions\<close> is commented out in the source, and so is the
  function. \<open>metav1.Now()\<close> reads the clock: the reading is the parameter \<open>now\<close>.
\<close>

definition setStatus :: "nat \<Rightarrow> string \<Rightarrow> string \<Rightarrow> string \<Rightarrow> KraanLayer \<Rightarrow> KraanLayer" where
  "setStatus now status reason message l =
     (let al = addonsLayer l;
          c = \<lparr>Type = status, CondVersion = SpecVersion (Spec al), CondStatus = ConditionTrue,
               LastTransitionTime = now, Reason = reason, Message = message\<rparr>;
          st = (Status al)\<lparr>Conditions := Conditions (Status al) @ [c]\<rparr>;
          st = st\<lparr>State := status\<rparr>;
          st = st\<lparr>StatusVersion := SpecVersion (Spec al)\<rparr>
      in l\<lparr>addonsLayer := al\<lparr>Status := st\<rparr>, updated := True, requeue := True\<rparr>)"

definition StatusUpdate :: "nat \<Rightarrow> string \<Rightarrow> string \<Rightarrow> string \<Rightarrow> KraanLayer \<Rightarrow> KraanLayer" where
  "StatusUpdate now status reason message l = setStatus now status reason message l"

definition SetStatusK8sVersion :: "v1alpha1_texts \<Rightarrow> nat \<Rightarrow> KraanLayer \<Rightarrow> KraanLayer" where
  "SetStatusK8sVersion k now l =
     setStatus now K8sVersionCondition (AddonsLayerK8sVersionReason k) (AddonsLayerK8sVersionMsg k) l"

definition SetStatusDeployed :: "v1alpha1_texts \<Rightarrow> nat \<Rightarrow> KraanLayer \<Rightarrow> KraanLayer" where
  "SetStatusDeployed k now l =
     (if GetStatus l \<noteq> DeployedCondition
      then setStatus now DeployedCondition (AddonsLayerDeployedReason k) [] l
      else l)"

definition SetStatusApplyPending :: "v1alpha1_texts \<Rightarrow> nat \<Rightarrow> KraanLayer \<Rightarrow> KraanLayer" where
  "SetStatusApplyPending k now l =
     setStatus now ApplyPendingCondition (AddonsLayerApplyPendingReason k) (AddonsLayerApplyPendingMsg k) l"

definition SetStatusApplying :: "v1alpha1_texts \<Rightarrow> nat \<Rightarrow> KraanLayer \<Rightarrow> KraanLayer" where
  "SetStatusApplying k now l =
     setStatus now ApplyingCondition (AddonsLayerApplyingReason k) (AddonsLayerApplyingMsg k) l"

definition SetStatusPrunePending :: "v1alpha1_texts \<Rightarrow> nat \<Rightarrow> KraanLayer \<Rightarrow> KraanLayer" where
  "SetStatusPrunePending k now l =
     setStatus now PrunePendingCondition (AddonsLayerPrunePendingReason k) (AddonsLayerPrunePendingMsg k) l"

definition SetStatusPruned :: "v1alpha1_texts \<Rightarrow> nat \<Rightarrow> KraanLayer \<Rightarrow> KraanLayer" where
  "SetStatusPruned k now l =
     setStatus now PrunedCondition (AddonsLayerPrunedReason k) (AddonsLayerPrunedMsg k) l"

definition SetStatusPruning :: "v1alpha1_texts \<Rightarrow> nat \<Rightarrow> KraanLayer \<Rightarrow> KraanLayer" where
  "SetStatusPruning k now l =
     setStatus now PruningCondition (AddonsLayerPruningReason k) (AddonsLayerPruningMsg k) l"

text \<open>
  \<open>CheckK8sVersion\<close> returns its verdict and the layer, which it changes when the
  discovery call fails.
\<close>

definition CheckK8sVersion :: "nat \<Rightarrow> KraanLayer \<Rightarrow> bool \<times> KraanLayer" where
  "CheckK8sVersion now l =
     (case ServerVersion (getK8sClient l) of
        Inl err \<Rightarrow>
          (False, SetDelayed (StatusUpdate now (GetStatus l)
                     ''failed to obtain cluster api server version'' err l))
      | Inr versionInfo \<Rightarrow> (string_gt versionInfo (GetRequiredK8sVersion l), l))"

definition SetStatusPruningToPruned :: "v1alpha1_texts \<Rightarrow> nat \<Rightarrow> KraanLayer \<Rightarrow> KraanLayer" where
  "SetStatusPruningToPruned k now l =
     (if GetStatus l = PruningCondition \<or> GetStatus l = PrunePendingCondition
      then SetStatusPruned k now l
      else l)"

text \<open>The predicates that \<open>layers.go\<close> leaves as stubs.\<close>

definition IsPruningRequired :: "KraanLayer \<Rightarrow> bool" where
  "IsPruningRequired l = True"

definition AllPruned :: "KraanLayer \<Rightarrow> bool" where
  "AllPruned l = False"

definition DependenciesDeployed :: "KraanLayer \<Rightarrow> bool" where
  "DependenciesDeployed l = False"

definition IsApplyRequired :: "KraanLayer \<Rightarrow> bool" where
  "IsApplyRequired l = False"

definition SuccessfullyApplied :: "KraanLayer \<Rightarrow> bool" where
  "SuccessfullyApplied l = False"

definition SetHold :: "v1alpha1_texts \<Rightarrow> nat \<Rightarrow> KraanLayer \<Rightarrow> KraanLayer" where
  "SetHold k now l =
     (if IsHold l \<and> GetStatus l \<noteq> HoldCondition
      then (StatusUpdate now HoldCondition (AddonsLayerHoldReason k) (AddonsLayerHoldMsg k) l)
             \<lparr>updated := True\<rparr>
      else l)"

definition GetSourcePath :: "KraanLayer \<Rightarrow> string" where
  "GetSourcePath l =
     rootPath @ ''/'' @ NameSpace (Source (Spec (addonsLayer l))) @ ''/''
       @ SourceName (Source (Spec (addonsLayer l))) @ ''/'' @ Path (Source (Spec (addonsLayer l)))"

text \<open>
  Modelled from the spec: \<open>SetDelayedRequeue\<close>, a method of the layer that the controller
  calls and \<open>layers.go\<close> does not define. The spec has the controller "mark the pass for a
  delayed requeue" at each of these calls, and a requeue is delayed when the session holds
  both \<open>needsRequeue\<close> and \<open>delayed\<close>: the method sets the two flags and nothing else.
\<close>

definition SetDelayedRequeue :: "KraanLayer \<Rightarrow> KraanLayer" where
  "SetDelayedRequeue l = l\<lparr>delayed := True, requeue := True\<rparr>"


section \<open>The controller\<close>

text \<open>
  The executor (\<open>apply.LayerApplier\<close>) is an external collaborator, known by its contract
  only: five calls, each taking the layer. It is modelled by the answers it gives, as
  functions of the layer it is shown; a Go result list \<open>(v, err)\<close> is a tuple whose last
  component is the error, \<open>None\<close> for \<open>nil\<close>. The executor reads the layer and does not
  change it.
\<close>

type_synonym HelmRelease = string

record LayerApplier =
  PruneIsRequired :: "KraanLayer \<Rightarrow> bool \<times> HelmRelease list \<times> string option"
  Prune :: "KraanLayer \<Rightarrow> HelmRelease list \<Rightarrow> string option"
  ApplyIsRequired :: "KraanLayer \<Rightarrow> bool \<times> string option"
  Apply :: "KraanLayer \<Rightarrow> string option"
  ApplyWasSuccessful :: "KraanLayer \<Rightarrow> bool \<times> string option"

text \<open>The executor calls issued in a pass are recorded, in order.\<close>

datatype applier_call =
  CallPruneIsRequired
  | CallPrune "HelmRelease list"
  | CallApplyIsRequired
  | CallApply
  | CallApplyWasSuccessful

record Request =
  ReqName :: string
  ReqNamespace :: string

record Result =
  Requeue :: bool
  RequeueAfter :: nat

text \<open>
  The cluster client of the reconciler, by its answers: \<open>Get\<close> finds the resource, reports
  that it is absent, or fails otherwise; \<open>StatusWriterUpdate\<close> is the answer of
  \<open>r.Status().Update\<close>, \<open>nil\<close> when the cluster has stored the resource and an error when it
  has not; \<open>List\<close> is the listing of all layers, \<open>(items, err)\<close>.
\<close>

datatype get_result = Found AddonsLayer | NotFound | GetFailed string

record AddonsLayerReconciler =
  Get :: "Request \<Rightarrow> get_result"
  StatusWriterUpdate :: "AddonsLayer \<Rightarrow> string option"
  List :: "AddonsLayer list \<times> string option"
  rk8client :: Clientset
  Applier :: LayerApplier

text \<open>
  The state threaded through one pass: the layer object, the executor calls made so far,
  the resources handed to the status writer so far (\<open>persisted\<close>) and, among these, the
  ones the cluster has stored (\<open>stored\<close>). One reading \<open>now\<close> of the clock serves the whole
  pass; nothing below depends on the time stamps.
\<close>

record session =
  layer :: KraanLayer
  calls :: "applier_call list"
  persisted :: "AddonsLayer list"
  stored :: "AddonsLayer list"

text \<open>
  \<open>processPrune\<close>. In the source \<open>err\<close> is the named result, assigned by the call of
  \<open>PruneIsRequired\<close>; the test after the call of \<open>Prune\<close> reads \<open>err\<close>, not \<open>pruneErr\<close>.
\<close>

definition processPrune ::
  "v1alpha1_texts \<Rightarrow> nat \<Rightarrow> AddonsLayerReconciler \<Rightarrow> session \<Rightarrow> (bool \<times> string option) \<times> session" where
  "processPrune k now r s =
     (let applier = Applier r;
          (pruneIsRequired, hrs, err) = PruneIsRequired applier (layer s);
          s1 = s\<lparr>calls := calls s @ [CallPruneIsRequired]\<rparr>
      in if err \<noteq> None then ((False, err), s1)
         else if pruneIsRequired then
           (let s2 = s1\<lparr>layer := SetStatusPruning k now (layer s1)\<rparr>;
                pruneErr = Prune applier (layer s2) hrs;
                s3 = s2\<lparr>calls := calls s2 @ [CallPrune hrs]\<rparr>
            in if err \<noteq> None then ((True, pruneErr), s3)
               else ((True, None), s3\<lparr>layer := SetDelayedRequeue (layer s3)\<rparr>))
         else ((False, None), s1))"

text \<open>\<open>processApply\<close>, with the same test of \<open>err\<close> after the call of \<open>Apply\<close>.\<close>

definition processApply ::
  "v1alpha1_texts \<Rightarrow> nat \<Rightarrow> AddonsLayerReconciler \<Rightarrow> session \<Rightarrow> (bool \<times> string option) \<times> session" where
  "processApply k now r s =
     (let applier = Applier r;
          (applyIsRequired, err) = ApplyIsRequired applier (layer s);
          s1 = s\<lparr>calls := calls s @ [CallApplyIsRequired]\<rparr>
      in if err \<noteq> None then ((False, err), s1)
         else if applyIsRequired then
           (if \<not> DependenciesDeployed (layer s1)
            then ((True, None), s1\<lparr>layer := SetDelayedRequeue (layer s1)\<rparr>)
            else
              (let s2 = s1\<lparr>layer := SetStatusApplying k now (layer s1)\<rparr>;
                   applyErr = Apply applier (layer s2);
                   s3 = s2\<lparr>calls := calls s2 @ [CallApply]\<rparr>
               in if err \<noteq> None then ((True, applyErr), s3)
                  else ((True, None), s3\<lparr>layer := SetDelayedRequeue (layer s3)\<rparr>)))
         else ((False, None), s1))"

definition checkSuccess ::
  "v1alpha1_texts \<Rightarrow> nat \<Rightarrow> AddonsLayerReconciler \<Rightarrow> session \<Rightarrow> string option \<times> session" where
  "checkSuccess k now r s =
     (let applier = Applier r;
          (applyWasSuccessful, err) = ApplyWasSuccessful applier (layer s);
          s1 = s\<lparr>calls := calls s @ [CallApplyWasSuccessful]\<rparr>
      in if err \<noteq> None then (err, s1)
         else if \<not> applyWasSuccessful then (None, s1\<lparr>layer := SetDelayedRequeue (layer s1)\<rparr>)
         else (None, s1\<lparr>layer := SetStatusDeployed k now (layer s1)\<rparr>))"

definition processAddonLayer ::
  "v1alpha1_texts \<Rightarrow> nat \<Rightarrow> AddonsLayerReconciler \<Rightarrow> session \<Rightarrow> string option \<times> session" where
  "processAddonLayer k now r s =
     (if IsHold (layer s) then (None, s\<lparr>layer := SetHold k now (layer s)\<rparr>)
      else
        (let (ok, l1) = CheckK8sVersion now (layer s);
             s1 = s\<lparr>layer := l1\<rparr>
         in if \<not> ok
            then (None, s1\<lparr>layer := SetDelayedRequeue (SetStatusK8sVersion k now (layer s1))\<rparr>)
            else
              (let ((layerStatusUpdated, err), s2) = processPrune k now r s1
               in if err \<noteq> None then (err, s2)
                  else if layerStatusUpdated then (None, s2)
                  else
                    (let ((layerStatusUpdated, err), s3) = processApply k now r s2
                     in if err \<noteq> None then (err, s3)
                        else if layerStatusUpdated then (None, s3)
                        else checkSuccess k now r s3))))"

text \<open>
  \<open>Status_Update\<close> is the call \<open>r.Status().Update(ctx, a)\<close> with its effect: the resource is
  handed to the status writer, and it is stored exactly when the writer answers \<open>nil\<close>.
  \<open>update\<close> returns the error of that call.
\<close>

definition Status_Update ::
  "AddonsLayerReconciler \<Rightarrow> AddonsLayer \<Rightarrow> session \<Rightarrow> string option \<times> session" where
  "Status_Update r a s =
     (let s1 = s\<lparr>persisted := persisted s @ [a]\<rparr>
      in case StatusWriterUpdate r a of
           None \<Rightarrow> (None, s1\<lparr>stored := stored s1 @ [a]\<rparr>)
         | Some e \<Rightarrow> (Some e, s1))"

definition update ::
  "AddonsLayerReconciler \<Rightarrow> AddonsLayer \<Rightarrow> session \<Rightarrow> string option \<times> session" where
  "update r a s =
     (let (err, s1) = Status_Update r a s
      in if err \<noteq> None then (err, s1) else (None, s1))"

text \<open>
  \<open>updateRequeue\<close> writes through the pointers \<open>res\<close> and \<open>rerr\<close>: it takes their current
  values and returns the new ones.
\<close>

definition updateRequeue ::
  "AddonsLayerReconciler \<Rightarrow> session \<Rightarrow> Result \<Rightarrow> string option \<Rightarrow> session \<times> Result \<times> string option" where
  "updateRequeue r s res rerr =
     (let l = layer s;
          (s1, rerr1) =
            (if IsUpdated l
             then (let (e, s') = update r (GetAddonsLayer l) s in (s', e))
             else (s, rerr))
      in if NeedsRequeue l
         then (if IsDelayed l
               then (s1, \<lparr>Requeue = True, RequeueAfter = GetDelay l\<rparr>, rerr1)
               else (s1, \<lparr>Requeue = True, RequeueAfter = 0\<rparr>, rerr1))
         else (s1, res, rerr1))"

text \<open>
  \<open>reconcileLayer\<close> is the body of \<open>Reconcile\<close> from \<open>CreateLayer\<close> on, for a resource that
  \<open>Get\<close> has found; \<open>Reconcile\<close> is the whole function. Besides the Go results
  \<open>(res, rerr)\<close> both return the session at the end of the pass, for the theorems to
  speak about (none when the resource was not loaded).
\<close>

definition reconcileLayer ::
  "v1alpha1_texts \<Rightarrow> nat \<Rightarrow> AddonsLayerReconciler \<Rightarrow> AddonsLayer \<Rightarrow> (Result \<times> string option) \<times> session" where
  "reconcileLayer k now r al =
     (let l = CreateLayer (rk8client r) al;
          rerr = None;
          res = \<lparr>Requeue = False, RequeueAfter = 0\<rparr>;
          (err, s) = processAddonLayer k now r \<lparr>layer = l, calls = [], persisted = [], stored = []\<rparr>;
          s1 = (case err of
                  Some e \<Rightarrow> s\<lparr>layer := StatusUpdate now FailedCondition (AddonsLayerFailedReason k) e (layer s)\<rparr>
                | None \<Rightarrow> s);
          (s2, res1, rerr1) = updateRequeue r s1 res rerr
      in ((res1, rerr1), s2))"

definition Reconcile ::
  "v1alpha1_texts \<Rightarrow> nat \<Rightarrow> AddonsLayerReconciler \<Rightarrow> Request \<Rightarrow> (Result \<times> string option) \<times> session option" where
  "Reconcile k now r req =
     (case Get r req of
        NotFound \<Rightarrow> ((\<lparr>Requeue = False, RequeueAfter = 0\<rparr>, None), None)
      | GetFailed e \<Rightarrow> ((\<lparr>Requeue = False, RequeueAfter = 0\<rparr>, Some e), None)
      | Found al \<Rightarrow> (case reconcileLayer k now r al of (out, s) \<Rightarrow> (out, Some s)))"


section \<open>Mapping a source change to reconcile requests\<close>

text \<open>
  \<open>repoMapperFunc\<close> receives an object with its kind. The type assertion to
  \<open>*GitRepository\<close> succeeds on a repository and fails on anything else; the test of the
  kind before it only logs. \<open>Status.Artifact\<close> of a repository is a pointer, \<open>nil\<close> when
  no artifact has been produced yet.
\<close>

record Artifact =
  Revision :: string
  URL :: string

record GitRepository =
  RepoName :: string
  RepoNamespace :: string
  RepoArtifact :: "Artifact option"

record GroupVersionKind =
  gvkGroup :: string
  gvkVersion :: string
  gvkKind :: string

text \<open>\<open>GroupVersionKind.String()\<close> of the Kubernetes library, used where the kind is printed
  with \<open>%s\<close>, and the constant \<open>sourcev1.GitRepositoryKind\<close>.\<close>

definition gvk_String :: "GroupVersionKind \<Rightarrow> string" where
  "gvk_String kind = gvkGroup kind @ ''/'' @ gvkVersion kind @ '', Kind='' @ gvkKind kind"

definition GitRepositoryKind :: string where
  "GitRepositoryKind = ''GitRepository''"

datatype runtime_object =
  GitRepositoryObject GroupVersionKind GitRepository
  | OtherObject GroupVersionKind

text \<open>
  What the logger receives: the message of an \<open>Info\<close> call, the error and the message of
  an \<open>Error\<close> call (keys and values are dropped).
\<close>

datatype log_entry = LogInfo string | LogError string string

record Response =
  StatusCode :: nat
  RespStatus :: string
  Body :: string

text \<open>
  The operating system and the libraries, by their answers. The file system is a state
  \<open>'fs\<close> that a call may change. \<open>ioutil_TempDir fs dir pattern\<close>, \<open>ioutil_ReadDir fs dir\<close>
  and \<open>os_Link fs oldname newname\<close> are the calls of these names; \<open>os_Getenv\<close> reads the
  environment; \<open>http_NewRequest method url\<close> answers with the error of building the
  request; \<open>http_Do url\<close> is the download by the default client under the 15 second
  bound, \<open>(response, err)\<close>; \<open>untar_Untar fs body dir\<close> extracts the body into \<open>dir\<close>,
  \<open>(summary, err)\<close>. \<open>RootPath\<close> is the package variable, set from the environment when
  the process starts.
\<close>

record 'fs os_env =
  ioutil_TempDir :: "'fs \<Rightarrow> string \<Rightarrow> string \<Rightarrow> (string \<times> string option) \<times> 'fs"
  ioutil_ReadDir :: "'fs \<Rightarrow> string \<Rightarrow> string list \<times> string option"
  os_Link :: "'fs \<Rightarrow> string \<Rightarrow> string \<Rightarrow> string option \<times> 'fs"
  os_Getenv :: "string \<Rightarrow> string"
  http_NewRequest :: "string \<Rightarrow> string \<Rightarrow> string option"
  http_Do :: "string \<Rightarrow> Response \<times> string option"
  untar_Untar :: "'fs \<Rightarrow> string \<Rightarrow> string \<Rightarrow> (string \<times> string option) \<times> 'fs"
  RootPath :: string

text \<open>The state threaded through the mapping: the file system and the log.\<close>

record 'fs world =
  files :: 'fs
  logged :: "log_entry list"

definition log_Info :: "string \<Rightarrow> 'fs world \<Rightarrow> 'fs world" where
  "log_Info msg w = w\<lparr>logged := logged w @ [LogInfo msg]\<rparr>"

definition log_Error :: "string \<Rightarrow> string \<Rightarrow> 'fs world \<Rightarrow> 'fs world" where
  "log_Error err msg w = w\<lparr>logged := logged w @ [LogError err msg]\<rparr>"

text \<open>
  \<open>fetchArtifact\<close>: the download and the extraction into \<open>dir\<close>. The result is the Go result
  list \<open>(summary, err)\<close>.
\<close>

definition fetchArtifact ::
  "'fs os_env \<Rightarrow> 'fs world \<Rightarrow> GitRepository \<Rightarrow> string \<Rightarrow> (string \<times> string option) \<times> 'fs world" where
  "fetchArtifact env w repository dir =
     (case RepoArtifact repository of
        None \<Rightarrow>
          (([], Some (''repository '' @ RepoName repository @ '' does not containt an artifact'')), w)
      | Some artifact \<Rightarrow>
          (let hostname = os_Getenv env ''SOURCE_HOST'';
               url = (if hostname \<noteq> []
                      then ''http://'' @ hostname @ ''/gitrepository/'' @ RepoNamespace repository
                             @ ''/'' @ RepoName repository @ ''/latest.tar.gz''
                      else URL artifact)
           in case http_NewRequest env ''GET'' url of
                Some e \<Rightarrow> (([], Some (''failed to create HTTP request, error: '' @ e)), w)
              | None \<Rightarrow>
                  (case http_Do env url of
                     (resp, Some e) \<Rightarrow>
                       (([], Some (''failed to download artifact from '' @ url @ '', error: '' @ e)), w)
                   | (resp, None) \<Rightarrow>
                       if StatusCode resp \<noteq> 200
                       then (([], Some (''faild to download artifact, status: '' @ RespStatus resp)), w)
                       else
                         (case untar_Untar env (files w) (Body resp) dir of
                            ((summary, Some e), fs1) \<Rightarrow>
                              (([], Some (''faild to untar artifact, error: '' @ e)), w\<lparr>files := fs1\<rparr>)
                          | ((summary, None), fs1) \<Rightarrow> ((summary, None), w\<lparr>files := fs1\<rparr>)))))"

text \<open>
  \<open>SyncRepo\<close>. Its first statement logs \<open>repository.Status.Artifact.Revision\<close>, which
  dereferences the pointer before \<open>fetchArtifact\<close> tests it: on a repository without an
  artifact the function panics, which is the result \<open>None\<close>. Otherwise the result is the
  Go result list \<open>(tmpDir, err)\<close>. The pattern given to \<open>TempDir\<close> is
  \<open>name/revision-*\<close>.
\<close>

definition SyncRepo ::
  "'fs os_env \<Rightarrow> 'fs world \<Rightarrow> GitRepository \<Rightarrow> (string \<times> string option) option \<times> 'fs world" where
  "SyncRepo env w repository =
     (case RepoArtifact repository of
        None \<Rightarrow> (None, w)
      | Some artifact \<Rightarrow>
          (let w1 = log_Info ''New revision detected'' w;
               ((tmpDir, err), fs1) =
                 ioutil_TempDir env (files w1) [] (RepoName repository @ ''/'' @ Revision artifact @ ''-*'');
               w2 = w1\<lparr>files := fs1\<rparr>
           in case err of
                Some e \<Rightarrow> (Some ([], Some (''failed to create temp dir, error: '' @ e)), w2)
              | None \<Rightarrow>
                  (let ((summary, err), w3) = fetchArtifact env w2 repository tmpDir
                   in case err of
                        Some e \<Rightarrow> (Some ([], Some e), w3)
                      | None \<Rightarrow>
                          (let w4 = log_Info ''fetched artifact'' w3;
                               (entries, err) = ioutil_ReadDir env (files w4) tmpDir
                           in case err of
                                Some e \<Rightarrow> (Some ([], Some (''faild to list files, error: '' @ e)), w4)
                              | None \<Rightarrow>
                                  (Some (tmpDir, None),
                                   w4\<lparr>logged := logged w4 @ map (\<lambda>file. LogInfo ''unpacked'') entries\<rparr>)))))"

text \<open>
  Modelled from the spec: the controller's function \<open>GetSourcePath\<close> of a resource, which
  \<open>repoMapperFunc\<close> calls and whose definition is missing. The spec organises the source
  tree as \<open>root/namespace/repository-name/declared-path\<close>. (The name carries a suffix
  because the method of the layer is called \<open>GetSourcePath\<close> too.)
\<close>

definition GetSourcePath_of :: "string \<Rightarrow> AddonsLayer \<Rightarrow> string" where
  "GetSourcePath_of root addon =
     root @ ''/'' @ NameSpace (Source (Spec addon)) @ ''/'' @ SourceName (Source (Spec addon))
       @ ''/'' @ Path (Source (Spec addon))"

text \<open>
  The function returns its batch, ends the process (\<open>os.Exit\<close>) with a status, or panics;
  each outcome comes with the file system and the log as they are left.
\<close>

datatype 'fs mapper_outcome =
  Returned "Request list" "'fs world"
  | ProcessExit nat "'fs world"
  | Panicked "'fs world"

definition references :: "GitRepository \<Rightarrow> AddonsLayer \<Rightarrow> bool" where
  "references repo addon =
     (SourceName (Source (Spec addon)) = RepoName repo
      \<and> NameSpace (Source (Spec addon)) = RepoNamespace repo)"

definition request_of :: "AddonsLayer \<Rightarrow> Request" where
  "request_of addon = \<lparr>ReqName = Name addon, ReqNamespace = []\<rparr>"

text \<open>
  The loop over the listed layers: \<open>addons\<close> is the batch built so far. The link is
  attempted for every listed layer, after its request has been added when it references
  the repository.
\<close>

fun publishLayers ::
  "'fs os_env \<Rightarrow> GitRepository \<Rightarrow> string \<Rightarrow> 'fs world \<Rightarrow> Request list \<Rightarrow> AddonsLayer list
   \<Rightarrow> 'fs mapper_outcome" where
  "publishLayers env repo dataPath w addons [] = Returned addons w"
| "publishLayers env repo dataPath w addons (addon # rest) =
     (let addons1 = (if references repo addon then addons @ [request_of addon] else addons);
          w1 = log_Info ''adding layer to list'' w;
          addonsPath = GetSourcePath_of (RootPath env) addon;
          (err, fs1) = os_Link env (files w1) addonsPath (dataPath @ ''/'' @ Path (Source (Spec addon)));
          w2 = w1\<lparr>files := fs1\<rparr>
      in case err of
           Some e \<Rightarrow>
             ProcessExit 1 (log_Error e (''unable link to new data for addonsLayers: '' @ Name addon) w2)
         | None \<Rightarrow> publishLayers env repo dataPath w2 addons1 rest)"

text \<open>The test of the kind at the head of \<open>repoMapperFunc\<close>: it logs and goes on.\<close>

definition check_kind :: "GroupVersionKind \<Rightarrow> 'fs world \<Rightarrow> 'fs world" where
  "check_kind kind w =
     (if gvkKind kind \<noteq> GitRepositoryKind
      then log_Error (''unexpected object kind: '' @ gvk_String kind @ '', only '' @ GitRepositoryKind
                        @ '' supported'')
             ''unexpected kind, continuing'' w
      else w)"

definition repoMapperFunc ::
  "'fs os_env \<Rightarrow> AddonsLayerReconciler \<Rightarrow> 'fs world \<Rightarrow> runtime_object \<Rightarrow> 'fs mapper_outcome" where
  "repoMapperFunc env reconciler w a =
     (case a of
        OtherObject kind \<Rightarrow>
          Returned [] (log_Error ''unable to cast object to GitRepository'' ''skipping processing''
                         (check_kind kind w))
      | GitRepositoryObject kind repo \<Rightarrow>
          (case SyncRepo env (check_kind kind w) repo of
             (None, w1) \<Rightarrow> Panicked w1
           | (Some (dataPath, Some e), w1) \<Rightarrow>
               Returned [] (log_Error e ''unable to sync repository'' w1)
           | (Some (dataPath, None), w1) \<Rightarrow>
               (case List reconciler of
                  (items, Some e) \<Rightarrow> Returned [] (log_Error e ''unable to list AddonsLayers'' w1)
                | (items, None) \<Rightarrow> publishLayers env repo dataPath w1 [] items)))"

text \<open>
  Every link of the loop succeeds, each one made in the file system that the links before
  it have left.
\<close>

fun links_ok :: "'fs os_env \<Rightarrow> string \<Rightarrow> 'fs \<Rightarrow> AddonsLayer list \<Rightarrow> bool" where
  "links_ok env dataPath fs [] = True"
| "links_ok env dataPath fs (addon # rest) =
     (case os_Link env fs (GetSourcePath_of (RootPath env) addon)
             (dataPath @ ''/'' @ Path (Source (Spec addon))) of
        (Some e, fs1) \<Rightarrow> False
      | (None, fs1) \<Rightarrow> links_ok env dataPath fs1 rest)"


section \<open>Properties\<close>

text \<open>
  The methods of the \<open>Layer\<close> interface that \<open>KraanLayer\<close> implements with an effect on
  the layer. The remaining ones are getters, or stubs that return a constant and leave
  the layer as it is.
\<close>

datatype Layer_method =
  M_SetStatusK8sVersion
  | M_SetStatusApplying
  | M_SetStatusApplyPending
  | M_SetStatusPrunePending
  | M_SetStatusPruned
  | M_SetStatusPruning
  | M_SetStatusDeployed
  | M_StatusUpdate string string string
  | M_setStatus string string string
  | M_SetHold
  | M_SetStatusPruningToPruned
  | M_CheckK8sVersion
  | M_SetRequeue
  | M_SetDelayed
  | M_SetUpdated
  | M_SetDelayedRequeue

fun call_method :: "v1alpha1_texts \<Rightarrow> nat \<Rightarrow> Layer_method \<Rightarrow> KraanLayer \<Rightarrow> KraanLayer" where
  "call_method k now M_SetStatusK8sVersion l = SetStatusK8sVersion k now l"
| "call_method k now M_SetStatusApplying l = SetStatusApplying k now l"
| "call_method k now M_SetStatusApplyPending l = SetStatusApplyPending k now l"
| "call_method k now M_SetStatusPrunePending l = SetStatusPrunePending k now l"
| "call_method k now M_SetStatusPruned l = SetStatusPruned k now l"
| "call_method k now M_SetStatusPruning l = SetStatusPruning k now l"
| "call_method k now M_SetStatusDeployed l = SetStatusDeployed k now l"
| "call_method k now (M_StatusUpdate status reason message) l = StatusUpdate now status reason message l"
| "call_method k now (M_setStatus status reason message) l = setStatus now status reason message l"
| "call_method k now M_SetHold l = SetHold k now l"
| "call_method k now M_SetStatusPruningToPruned l = SetStatusPruningToPruned k now l"
| "call_method k now M_CheckK8sVersion l = snd (CheckK8sVersion now l)"
| "call_method k now M_SetRequeue l = SetRequeue l"
| "call_method k now M_SetDelayed l = SetDelayed l"
| "call_method k now M_SetUpdated l = SetUpdated l"
| "call_method k now M_SetDelayedRequeue l = SetDelayedRequeue l"

text \<open>
  The state agrees with the conditions: when there is a condition, the state is the type
  of the last one.
\<close>

definition state_is_last_type :: "KraanLayer \<Rightarrow> bool" where
  "state_is_last_type l =
     (Conditions (GetFullStatus l) = []
      \<or> GetStatus l = Type (last (Conditions (GetFullStatus l))))"

text \<open>\<open>Prune\<close> and \<open>Apply\<close> are the executor calls that change the cluster.\<close>

fun is_mutation :: "applier_call \<Rightarrow> bool" where
  "is_mutation (CallPrune hrs) = True"
| "is_mutation CallApply = True"
| "is_mutation c = False"


text \<open>
  The shapes the call record of a pass can take, and the step between the state machine
  and \<open>updateRequeue\<close> in \<open>Reconcile\<close> (the layer is marked failed when the state machine
  returned an error); both serve the proofs.
\<close>

definition call_shapes :: "applier_call list set" where
  "call_shapes =
     {[], [CallPruneIsRequired], [CallPruneIsRequired, CallApplyIsRequired],
      [CallPruneIsRequired, CallApplyIsRequired, CallApply],
      [CallPruneIsRequired, CallApplyIsRequired, CallApplyWasSuccessful]}
     \<union> {[CallPruneIsRequired, CallPrune hrs] | hrs. True}"

definition failed_or_same ::
  "v1alpha1_texts \<Rightarrow> nat \<Rightarrow> string option \<times> session \<Rightarrow> session" where
  "failed_or_same k now p =
     (case fst p of
        Some e \<Rightarrow>
          (snd p)\<lparr>layer := StatusUpdate now FailedCondition (AddonsLayerFailedReason k) e (layer (snd p))\<rparr>
      | None \<Rightarrow> snd p)"


text \<open>
  The relation between the resource \<open>al\<close> as loaded and the layer object during the pass
  that the proofs carry along: the descriptor is the loaded one, and either the status is
  the loaded one as well, or the session is marked updated and requeue and the observed
  version is the desired one.
\<close>

definition tracked :: "AddonsLayer \<Rightarrow> KraanLayer \<Rightarrow> bool" where
  "tracked al l =
     (Spec (addonsLayer l) = Spec al
      \<and> (Status (addonsLayer l) = Status al
         \<or> (updated l \<and> requeue l
            \<and> StatusVersion (Status (addonsLayer l)) = SpecVersion (Spec al))))"


section \<open>Concrete inputs\<close>

text \<open>
  A set of texts, a resource \<open>layer_x\<close> as a user creates it (empty status), a cluster
  that answers the version query, and appliers for the situations the theorems are
  tried on.
\<close>

definition texts0 :: v1alpha1_texts where
  "texts0 =
     \<lparr>AddonsLayerK8sVersionReason = ''k8s version'',
      AddonsLayerK8sVersionMsg = ''waiting for the required cluster version'',
      AddonsLayerDeployedReason = ''deployed'',
      AddonsLayerApplyPendingReason = ''apply pending'',
      AddonsLayerApplyPendingMsg = ''waiting to be applied'',
      AddonsLayerApplyingReason = ''applying'',
      AddonsLayerApplyingMsg = ''apply in progress'',
      AddonsLayerPrunePendingReason = ''prune pending'',
      AddonsLayerPrunePendingMsg = ''waiting to be pruned'',
      AddonsLayerPrunedReason = ''pruned'',
      AddonsLayerPrunedMsg = ''pruning done'',
      AddonsLayerPruningReason = ''pruning'',
      AddonsLayerPruningMsg = ''pruning in progress'',
      AddonsLayerHoldReason = ''hold'',
      AddonsLayerHoldMsg = ''processing is on hold'',
      AddonsLayerFailedReason = ''failed''\<rparr>"

definition layer_x :: AddonsLayer where
  "layer_x =
     \<lparr>Name = ''layer-x'',
      Spec = \<lparr>Source = \<lparr>NameSpace = ''gitops'', SourceName = ''addons'', Path = ''x''\<rparr>,
              SpecVersion = ''0.1.0'', Hold = False, K8sVersion = ''v1.16'', Interval = 60\<rparr>,
      Status = \<lparr>State = [], StatusVersion = [], Conditions = []\<rparr>\<rparr>"

definition held_x :: AddonsLayer where
  "held_x = layer_x\<lparr>Spec := (Spec layer_x)\<lparr>Hold := True\<rparr>\<rparr>"

definition req_x :: Request where
  "req_x = \<lparr>ReqName = ''layer-x'', ReqNamespace = []\<rparr>"

definition cluster_v118 :: Clientset where
  "cluster_v118 = \<lparr>ServerVersion = Inr ''v1.18.0''\<rparr>"

definition cluster_v116 :: Clientset where
  "cluster_v116 = \<lparr>ServerVersion = Inr ''v1.16''\<rparr>"

text \<open>Nothing to prune, nothing to apply, the last apply is ready.\<close>

definition applier_ready :: LayerApplier where
  "applier_ready =
     \<lparr>PruneIsRequired = (\<lambda>l. (False, [], None)),
      Prune = (\<lambda>l hrs. None),
      ApplyIsRequired = (\<lambda>l. (False, None)),
      Apply = (\<lambda>l. None),
      ApplyWasSuccessful = (\<lambda>l. (True, None))\<rparr>"

text \<open>One release to prune; the prune succeeds.\<close>

definition applier_prune :: LayerApplier where
  "applier_prune = applier_ready\<lparr>PruneIsRequired := (\<lambda>l. (True, [''old-release''], None))\<rparr>"

text \<open>One release to prune; the prune fails.\<close>

definition applier_prune_fails :: LayerApplier where
  "applier_prune_fails = applier_prune\<lparr>Prune := (\<lambda>l hrs. Some ''prune failed'')\<rparr>"

text \<open>Nothing to prune, an apply is required.\<close>

definition applier_apply :: LayerApplier where
  "applier_apply = applier_ready\<lparr>ApplyIsRequired := (\<lambda>l. (True, None))\<rparr>"

text \<open>A reconciler whose cluster holds the one resource \<open>al\<close>; status writes succeed.\<close>

definition reconciler_of :: "LayerApplier \<Rightarrow> Clientset \<Rightarrow> AddonsLayer \<Rightarrow> AddonsLayerReconciler" where
  "reconciler_of ap kc al =
     \<lparr>Get = (\<lambda>req. if ReqName req = Name al then Found al else NotFound),
      StatusWriterUpdate = (\<lambda>a. None),
      List = ([al], None),
      rk8client = kc,
      Applier = ap\<rparr>"


text \<open>Reconcilers for \<open>layer_x\<close>: one with a release to prune, one with an apply pending,
  one whose resource is on hold.\<close>

definition rc_prune :: AddonsLayerReconciler where
  "rc_prune = reconciler_of applier_prune cluster_v118 layer_x"

definition rc_apply :: AddonsLayerReconciler where
  "rc_apply = reconciler_of applier_apply cluster_v118 layer_x"

definition rc_held :: AddonsLayerReconciler where
  "rc_held = reconciler_of applier_prune cluster_v118 held_x"

text \<open>Reconcilers for \<open>layer_x\<close>: the prune fails; the cluster runs exactly the required
  version; nothing is pending.\<close>

definition rc_prune_fails :: AddonsLayerReconciler where
  "rc_prune_fails = reconciler_of applier_prune_fails cluster_v118 layer_x"

definition rc_equal_version :: AddonsLayerReconciler where
  "rc_equal_version = reconciler_of applier_ready cluster_v116 layer_x"

definition rc_fresh :: AddonsLayerReconciler where
  "rc_fresh = reconciler_of applier_ready cluster_v118 layer_x"

text \<open>The same, on a cluster that refuses the status write.\<close>

definition rc_write_fails :: AddonsLayerReconciler where
  "rc_write_fails = rc_fresh\<lparr>StatusWriterUpdate := (\<lambda>a. Some ''update failed'')\<rparr>"

text \<open>A resource that has been through ten transitions, so that it holds
  \<open>MaxConditions\<close> conditions.\<close>

definition applying_c :: Condition where
  "applying_c = \<lparr>Type = ApplyingCondition, CondVersion = ''0.1.0'', CondStatus = ConditionTrue,
     LastTransitionTime = 0, Reason = ''applying'', Message = ''apply in progress''\<rparr>"

definition deployed_c :: Condition where
  "deployed_c = \<lparr>Type = DeployedCondition, CondVersion = ''0.1.0'', CondStatus = ConditionTrue,
     LastTransitionTime = 0, Reason = ''deployed'', Message = []\<rparr>"

definition worn_x :: AddonsLayer where
  "worn_x = layer_x\<lparr>Status :=
     \<lparr>State = DeployedCondition, StatusVersion = ''0.1.0'',
      Conditions = [applying_c, deployed_c, applying_c, deployed_c, applying_c, deployed_c,
                    applying_c, deployed_c, applying_c, deployed_c]\<rparr>\<rparr>"

text \<open>
  For the mapping: a repository with an artifact, a second layer on it, and a reconciler
  that lists the two layers. The file system is the list of the paths that exist.
\<close>

definition repo_addons :: GitRepository where
  "repo_addons =
     \<lparr>RepoName = ''addons'', RepoNamespace = ''gitops'',
      RepoArtifact = Some \<lparr>Revision = ''master/4e0e6f8'',
        URL = ''http://source-controller/gitrepository/gitops/addons/4e0e6f8.tar.gz''\<rparr>\<rparr>"

definition kind_repo :: GroupVersionKind where
  "kind_repo = \<lparr>gvkGroup = ''source.toolkit.fluxcd.io'', gvkVersion = ''v1alpha1'',
     gvkKind = ''GitRepository''\<rparr>"

definition layer_y :: AddonsLayer where
  "layer_y = layer_x\<lparr>Name := ''layer-y'',
     Spec := (Spec layer_x)\<lparr>Source := (Source (Spec layer_x))\<lparr>Path := ''y''\<rparr>\<rparr>\<rparr>"

definition rc_two :: AddonsLayerReconciler where
  "rc_two = (reconciler_of applier_ready cluster_v118 layer_x)\<lparr>List := ([layer_x, layer_y], None)\<rparr>"

text \<open>
  \<open>ioutil.TempDir\<close> of the Go library before 1.15, on this file system: the random string
  replaces the last \<open>*\<close> of the pattern, the directory is made under \<open>/tmp\<close> when \<open>dir\<close> is
  empty, and making it fails when its parent does not exist. (One random string is
  tried.)
\<close>

definition dirname :: "string \<Rightarrow> string" where
  "dirname p = rev (drop 1 (dropWhile (\<lambda>c. c \<noteq> CHR ''/'') (rev p)))"

definition prefixAndSuffix :: "string \<Rightarrow> string \<times> string" where
  "prefixAndSuffix pattern =
     (if CHR ''*'' \<in> set pattern
      then (rev (drop 1 (dropWhile (\<lambda>c. c \<noteq> CHR ''*'') (rev pattern))),
            rev (takeWhile (\<lambda>c. c \<noteq> CHR ''*'') (rev pattern)))
      else (pattern, []))"

definition TempDir_go114 :: "string list \<Rightarrow> string \<Rightarrow> string \<Rightarrow> (string \<times> string option) \<times> string list" where
  "TempDir_go114 fs dir pattern =
     (let d = (if dir = [] then ''/tmp'' else dir);
          (prefix, suffix) = prefixAndSuffix pattern;
          try = d @ ''/'' @ prefix @ ''123456'' @ suffix
      in if dirname try \<in> set fs
         then ((try, None), fs @ [try])
         else (([], Some (''mkdir '' @ try @ '': no such file or directory'')), fs))"

text \<open>From Go 1.15 on, \<open>ioutil.TempDir\<close> rejects a pattern that contains a path separator.\<close>

definition TempDir_go115 :: "string list \<Rightarrow> string \<Rightarrow> string \<Rightarrow> (string \<times> string option) \<times> string list" where
  "TempDir_go115 fs dir pattern =
     (if CHR ''/'' \<in> set pattern
      then (([], Some ''pattern contains path separator''), fs)
      else TempDir_go114 fs dir pattern)"

text \<open>
  An environment on the library before 1.15: the download answers 200, the extraction
  writes one file, and a link succeeds when the old name exists and the new one does not.
  \<open>env_go115\<close> is the same on the later library.
\<close>

definition env_go114 :: "string list os_env" where
  "env_go114 =
     \<lparr>ioutil_TempDir = TempDir_go114,
      ioutil_ReadDir = (\<lambda>fs dir. ([''README''], None)),
      os_Link = (\<lambda>fs oldname newname.
        if oldname \<in> set fs \<and> newname \<notin> set fs then (None, fs @ [newname])
        else (Some (''link '' @ oldname @ '' '' @ newname @ '': no such file or directory''), fs)),
      os_Getenv = (\<lambda>name. []),
      http_NewRequest = (\<lambda>method url. None),
      http_Do = (\<lambda>url. (\<lparr>StatusCode = 200, RespStatus = ''200 OK'', Body = ''tarball''\<rparr>, None)),
      untar_Untar = (\<lambda>fs body dir. ((''extracted 1 file'', None), fs @ [dir @ ''/README''])),
      RootPath = ''/repos''\<rparr>"

definition env_go115 :: "string list os_env" where
  "env_go115 = env_go114\<lparr>ioutil_TempDir := TempDir_go115\<rparr>"

text \<open>
  Two file systems in which the parent of the temporary directory exists: one without the
  source tree of the layers, one with it.
\<close>

definition world_bare :: "string list world" where
  "world_bare = \<lparr>files = [''/tmp'', ''/tmp/addons'', ''/tmp/addons/master''], logged = []\<rparr>"

definition world_sources :: "string list world" where
  "world_sources =
     \<lparr>files = [''/tmp'', ''/tmp/addons'', ''/tmp/addons/master'',
               ''/repos/gitops/addons/x'', ''/repos/gitops/addons/y''],
      logged = []\<rparr>"


text \<open>The temporary directory that \<open>TempDir_go114\<close> makes for \<open>repo_addons\<close>, and a world
  after the sync into it.\<close>

definition tmp_addons :: string where
  "tmp_addons = ''/tmp/addons/master/4e0e6f8-123456''"

definition synced :: "string list world \<Rightarrow> string list world" where
  "synced w =
     \<lparr>files = files w @ [tmp_addons, tmp_addons @ ''/README''],
      logged = logged w @ [LogInfo ''New revision detected'', LogInfo ''fetched artifact'',
                 LogInfo ''unpacked'']\<rparr>"


section \<open>Lemmas\<close>

lemmas layer_defs = CreateLayer_def SetRequeue_def SetUpdated_def SetDelayed_def GetFullStatus_def
  GetSpec_def GetAddonsLayer_def GetRequiredK8sVersion_def getK8sClient_def GetStatus_def
  IsHold_def IsUpdated_def IsDelayed_def NeedsRequeue_def GetDelay_def GetName_def
  setStatus_def StatusUpdate_def SetStatusK8sVersion_def SetStatusDeployed_def
  SetStatusApplyPending_def SetStatusApplying_def SetStatusPrunePending_def SetStatusPruned_def
  SetStatusPruning_def CheckK8sVersion_def SetStatusPruningToPruned_def SetHold_def
  SetDelayedRequeue_def DependenciesDeployed_def

lemmas controller_defs = processPrune_def processApply_def checkSuccess_def processAddonLayer_def
  Status_Update_def update_def updateRequeue_def reconcileLayer_def Reconcile_def

lemmas condition_defs = HoldCondition_def K8sVersionCondition_def PrunePendingCondition_def
  PruningCondition_def PrunedCondition_def ApplyPendingCondition_def ApplyingCondition_def
  DeployedCondition_def FailedCondition_def ConditionTrue_def

lemmas input_defs = texts0_def layer_x_def held_x_def req_x_def cluster_v118_def cluster_v116_def
  applier_ready_def applier_prune_def applier_prune_fails_def applier_apply_def reconciler_of_def

lemmas rc_defs = rc_prune_def rc_apply_def rc_held_def rc_prune_fails_def rc_equal_version_def
  rc_fresh_def rc_write_fails_def

lemmas mapper_defs = repoMapperFunc_def SyncRepo_def fetchArtifact_def check_kind_def
  log_Info_def log_Error_def gvk_String_def GitRepositoryKind_def GetSourcePath_of_def
  references_def request_of_def

lemmas mapper_input_defs = repo_addons_def kind_repo_def layer_y_def rc_two_def dirname_def
  prefixAndSuffix_def TempDir_go114_def TempDir_go115_def env_go114_def env_go115_def
  world_bare_def world_sources_def tmp_addons_def synced_def

subsection \<open>The status transition\<close>

lemma setStatus_updated: "updated (setStatus now st rs ms l) = True"
  and setStatus_requeue: "requeue (setStatus now st rs ms l) = True"
  and setStatus_delayed: "delayed (setStatus now st rs ms l) = delayed l"
  and setStatus_delay: "delay (setStatus now st rs ms l) = delay l"
  and setStatus_k8client: "k8client (setStatus now st rs ms l) = k8client l"
  and setStatus_Spec: "Spec (addonsLayer (setStatus now st rs ms l)) = Spec (addonsLayer l)"
  and setStatus_Name: "Name (addonsLayer (setStatus now st rs ms l)) = Name (addonsLayer l)"
  and setStatus_State: "State (Status (addonsLayer (setStatus now st rs ms l))) = st"
  and setStatus_StatusVersion:
    "StatusVersion (Status (addonsLayer (setStatus now st rs ms l))) = SpecVersion (Spec (addonsLayer l))"
  and setStatus_Conditions:
    "Conditions (Status (addonsLayer (setStatus now st rs ms l))) =
       Conditions (Status (addonsLayer l)) @
         [\<lparr>Type = st, CondVersion = SpecVersion (Spec (addonsLayer l)), CondStatus = ConditionTrue,
           LastTransitionTime = now, Reason = rs, Message = ms\<rparr>]"
  by (simp_all add: setStatus_def Let_def)

lemma setStatus_inv: "state_is_last_type (setStatus now st rs ms l)"
  by (simp add: state_is_last_type_def GetFullStatus_def GetStatus_def setStatus_State
      setStatus_Conditions)

lemma inv_flags:
  "state_is_last_type (l\<lparr>updated := u\<rparr>) = state_is_last_type l"
  "state_is_last_type (l\<lparr>requeue := q\<rparr>) = state_is_last_type l"
  "state_is_last_type (l\<lparr>delayed := d\<rparr>) = state_is_last_type l"
  by (simp_all add: state_is_last_type_def GetFullStatus_def GetStatus_def)

lemma call_method_inv: "state_is_last_type l \<Longrightarrow> state_is_last_type (call_method k now m l)"
  by (cases m)
     (simp_all add: SetStatusK8sVersion_def SetStatusApplying_def SetStatusApplyPending_def
        SetStatusPrunePending_def SetStatusPruned_def SetStatusPruning_def SetStatusDeployed_def
        StatusUpdate_def SetHold_def SetStatusPruningToPruned_def CheckK8sVersion_def
        SetRequeue_def SetDelayed_def SetUpdated_def SetDelayedRequeue_def
        setStatus_inv inv_flags split: sum.split)

lemma setStatus_length:
  "length (Conditions (GetFullStatus (setStatus now st rs ms l)))
     = Suc (length (Conditions (GetFullStatus l)))"
  by (simp add: GetFullStatus_def setStatus_Conditions)

lemma string_gt_irrefl: "\<not> string_gt v v"
  by (induction v) simp_all

lemma equal_version_fails_check:
  "ServerVersion (k8client l) = Inr (GetRequiredK8sVersion l) \<Longrightarrow> CheckK8sVersion now l = (False, l)"
  by (simp add: CheckK8sVersion_def getK8sClient_def string_gt_irrefl)

subsection \<open>The steps of a pass\<close>

text \<open>
  What the three steps compute. After a successful \<open>PruneIsRequired\<close> (resp.
  \<open>ApplyIsRequired\<close>) the variable \<open>err\<close> is \<open>nil\<close>, so the test that follows the call of
  \<open>Prune\<close> (resp. \<open>Apply\<close>) never fires and the error of that call is dropped.
\<close>

lemma processPrune_eq:
  "processPrune k now r s =
     (case PruneIsRequired (Applier r) (layer s) of
        (pruneIsRequired, hrs, err) \<Rightarrow>
          if err \<noteq> None then ((False, err), s\<lparr>calls := calls s @ [CallPruneIsRequired]\<rparr>)
          else if pruneIsRequired
          then ((True, None),
                s\<lparr>calls := calls s @ [CallPruneIsRequired, CallPrune hrs],
                  layer := SetDelayedRequeue (SetStatusPruning k now (layer s))\<rparr>)
          else ((False, None), s\<lparr>calls := calls s @ [CallPruneIsRequired]\<rparr>))"
  by (simp add: processPrune_def Let_def split: prod.split)

lemma processApply_eq:
  "processApply k now r s =
     (case ApplyIsRequired (Applier r) (layer s) of
        (applyIsRequired, err) \<Rightarrow>
          if err \<noteq> None then ((False, err), s\<lparr>calls := calls s @ [CallApplyIsRequired]\<rparr>)
          else if applyIsRequired
          then (if \<not> DependenciesDeployed (layer s)
                then ((True, None),
                      s\<lparr>calls := calls s @ [CallApplyIsRequired],
                        layer := SetDelayedRequeue (layer s)\<rparr>)
                else ((True, None),
                      s\<lparr>calls := calls s @ [CallApplyIsRequired, CallApply],
                        layer := SetDelayedRequeue (SetStatusApplying k now (layer s))\<rparr>))
          else ((False, None), s\<lparr>calls := calls s @ [CallApplyIsRequired]\<rparr>))"
  by (simp add: processApply_def Let_def split: prod.split)

lemma checkSuccess_eq:
  "checkSuccess k now r s =
     (case ApplyWasSuccessful (Applier r) (layer s) of
        (applyWasSuccessful, err) \<Rightarrow>
          if err \<noteq> None then (err, s\<lparr>calls := calls s @ [CallApplyWasSuccessful]\<rparr>)
          else if \<not> applyWasSuccessful
          then (None, s\<lparr>calls := calls s @ [CallApplyWasSuccessful],
                        layer := SetDelayedRequeue (layer s)\<rparr>)
          else (None, s\<lparr>calls := calls s @ [CallApplyWasSuccessful],
                        layer := SetStatusDeployed k now (layer s)\<rparr>))"
  by (simp add: checkSuccess_def Let_def split: prod.split)

text \<open>
  The version gate of the state machine: a layer that is not held proceeds to the prune
  check exactly when the cluster version is strictly greater than the prerequisite.
\<close>

lemma version_gate_waits:
  "\<not> IsHold (layer s) \<Longrightarrow> ServerVersion (k8client (layer s)) = Inr v \<Longrightarrow>
   \<not> string_gt v (GetRequiredK8sVersion (layer s)) \<Longrightarrow>
     processAddonLayer k now r s
       = (None, s\<lparr>layer := SetDelayedRequeue (SetStatusK8sVersion k now (layer s))\<rparr>)"
  by (simp add: processAddonLayer_def CheckK8sVersion_def getK8sClient_def)

lemma version_gate_passes:
  "\<not> IsHold (layer s) \<Longrightarrow> ServerVersion (k8client (layer s)) = Inr v \<Longrightarrow>
   string_gt v (GetRequiredK8sVersion (layer s)) \<Longrightarrow>
     calls (snd (processAddonLayer k now r s)) \<noteq> calls s"
proof -
  assume a: "\<not> IsHold (layer s)" "ServerVersion (k8client (layer s)) = Inr v"
    "string_gt v (GetRequiredK8sVersion (layer s))"
  obtain p hrs e1 where pr: "PruneIsRequired (Applier r) (layer s) = (p, hrs, e1)"
    by (cases "PruneIsRequired (Applier r) (layer s)")
  obtain ap e2 where ai: "ApplyIsRequired (Applier r) (layer s) = (ap, e2)"
    by (cases "ApplyIsRequired (Applier r) (layer s)")
  obtain w e3 where su: "ApplyWasSuccessful (Applier r) (layer s) = (w, e3)"
    by (cases "ApplyWasSuccessful (Applier r) (layer s)")
  show ?thesis
    using a
    by (simp add: processAddonLayer_def CheckK8sVersion_def getK8sClient_def processPrune_eq
        processApply_eq checkSuccess_eq pr ai su Let_def)
qed

lemma processAddonLayer_calls:
  assumes "calls s = []"
  shows "calls (snd (processAddonLayer k now r s)) \<in> call_shapes"
proof -
  obtain ok l1 where c: "CheckK8sVersion now (layer s) = (ok, l1)"
    by (cases "CheckK8sVersion now (layer s)")
  obtain p hrs e1 where pr: "PruneIsRequired (Applier r) l1 = (p, hrs, e1)"
    by (cases "PruneIsRequired (Applier r) l1")
  obtain a e2 where ap: "ApplyIsRequired (Applier r) l1 = (a, e2)"
    by (cases "ApplyIsRequired (Applier r) l1")
  obtain w e3 where su: "ApplyWasSuccessful (Applier r) l1 = (w, e3)"
    by (cases "ApplyWasSuccessful (Applier r) l1")
  show ?thesis
    using assms
    by (simp add: processAddonLayer_def processPrune_eq processApply_eq checkSuccess_eq
        call_shapes_def c pr ap su Let_def)
qed

lemma update_eq:
  "update r a s =
     (StatusWriterUpdate r a,
      s\<lparr>persisted := persisted s @ [a],
        stored := (if StatusWriterUpdate r a = None then stored s @ [a] else stored s)\<rparr>)"
  by (simp add: update_def Status_Update_def Let_def split: option.split)

lemma updateRequeue_calls: "calls (fst (updateRequeue r s res rerr)) = calls s"
  by (simp add: updateRequeue_def update_eq Let_def)


lemma updateRequeue_session:
  "fst (updateRequeue r s res rerr) =
     (if IsUpdated (layer s)
      then s\<lparr>persisted := persisted s @ [GetAddonsLayer (layer s)],
             stored := (if StatusWriterUpdate r (GetAddonsLayer (layer s)) = None
                        then stored s @ [GetAddonsLayer (layer s)] else stored s)\<rparr>
      else s)"
  by (simp add: updateRequeue_def update_eq Let_def)

lemma updateRequeue_Result:
  "fst (snd (updateRequeue r s res rerr)) =
     (if NeedsRequeue (layer s)
      then (if IsDelayed (layer s) then \<lparr>Requeue = True, RequeueAfter = GetDelay (layer s)\<rparr>
            else \<lparr>Requeue = True, RequeueAfter = 0\<rparr>)
      else res)"
  by (simp add: updateRequeue_def update_eq Let_def)

lemma updateRequeue_rerr:
  "snd (snd (updateRequeue r s res rerr)) =
     (if IsUpdated (layer s) then StatusWriterUpdate r (GetAddonsLayer (layer s)) else rerr)"
  by (simp add: updateRequeue_def update_eq Let_def)

lemma reconcileLayer_eq:
  "reconcileLayer k now r al =
     (let s1 = failed_or_same k now
                 (processAddonLayer k now r
                    \<lparr>layer = CreateLayer (rk8client r) al, calls = [], persisted = [], stored = []\<rparr>);
          u = updateRequeue r s1 \<lparr>Requeue = False, RequeueAfter = 0\<rparr> None
      in ((fst (snd u), snd (snd u)), fst u))"
  by (simp add: reconcileLayer_def failed_or_same_def Let_def split: prod.split option.split)

lemma failed_or_same_calls: "calls (failed_or_same k now p) = calls (snd p)"
  by (simp add: failed_or_same_def split: option.split)

lemma reconcileLayer_calls: "calls (snd (reconcileLayer k now r al)) \<in> call_shapes"
  by (simp add: reconcileLayer_eq Let_def updateRequeue_session failed_or_same_calls
      processAddonLayer_calls)

lemma call_shapes_one_mutation:
  "cs \<in> call_shapes \<Longrightarrow>
     length (filter is_mutation cs) \<le> 1 \<and>
     ((\<exists>hrs. CallPrune hrs \<in> set cs) \<longrightarrow> CallApplyIsRequired \<notin> set cs \<and> CallApply \<notin> set cs)"
  by (auto simp: call_shapes_def)

lemma CheckK8sVersion_ok: "CheckK8sVersion now l = (True, l1) \<Longrightarrow> l1 = l"
  by (auto simp: CheckK8sVersion_def split: sum.splits)

lemma processAddonLayer_hold:
  "IsHold (layer s) \<Longrightarrow> processAddonLayer k now r s = (None, s\<lparr>layer := SetHold k now (layer s)\<rparr>)"
  by (simp add: processAddonLayer_def)

lemma processAddonLayer_asks_apply:
  assumes "calls s = []"
    and "CallApplyIsRequired \<in> set (calls (snd (processAddonLayer k now r s)))"
    and "ApplyIsRequired (Applier r) (layer s) = (True, None)"
    and "\<not> DependenciesDeployed (layer s)"
  shows "processAddonLayer k now r s =
           (None, s\<lparr>layer := SetDelayedRequeue (layer s),
                    calls := [CallPruneIsRequired, CallApplyIsRequired]\<rparr>)"
proof -
  obtain ok l1 where c: "CheckK8sVersion now (layer s) = (ok, l1)"
    by (cases "CheckK8sVersion now (layer s)")
  obtain p hrs e1 where pr: "PruneIsRequired (Applier r) l1 = (p, hrs, e1)"
    by (cases "PruneIsRequired (Applier r) l1")
  have h: "\<not> IsHold (layer s)"
    using assms(1,2) by (auto simp: processAddonLayer_hold)
  have ok: "ok"
    using assms(1,2) h by (cases ok) (simp_all add: processAddonLayer_def c Let_def)
  then have l1: "l1 = layer s"
    using c by (auto dest: CheckK8sVersion_ok)
  have e1: "e1 = None"
    using assms(1,2) h ok
    by (cases e1) (simp_all add: processAddonLayer_def processPrune_eq c pr Let_def)
  have p: "\<not> p"
    using assms(1,2) h ok e1
    by (cases p) (simp_all add: processAddonLayer_def processPrune_eq c pr Let_def)
  show ?thesis
    using assms(1,3,4) h ok e1 p pr c
    by (simp add: processAddonLayer_def processPrune_eq processApply_eq l1 Let_def)
qed

text \<open>
  The error of \<open>Prune\<close> never reaches the result of \<open>processPrune\<close>: the step returns the
  same whatever \<open>Prune\<close> answers.
\<close>

lemma prune_error_never_returned:
  "PruneIsRequired (Applier r) (layer s) = (True, hrs, None) \<Longrightarrow>
     processPrune k now r s =
       ((True, None),
        s\<lparr>calls := calls s @ [CallPruneIsRequired, CallPrune hrs],
          layer := SetDelayedRequeue (SetStatusPruning k now (layer s))\<rparr>)"
  by (simp add: processPrune_eq)

text \<open>
  An error of one of the three queries (\<open>PruneIsRequired\<close>, \<open>ApplyIsRequired\<close>,
  \<open>ApplyWasSuccessful\<close>) is returned with the layer untouched, and \<open>Reconcile\<close> then marks
  the layer failed with the message and asks for an immediate requeue.
\<close>

lemma processAddonLayer_error:
  assumes "fst (processAddonLayer k now r s) = Some e"
  shows "layer (snd (processAddonLayer k now r s)) = layer s
         \<and> (e \<in> {x. snd (snd (PruneIsRequired (Applier r) (layer s))) = Some x}
                \<union> {x. snd (ApplyIsRequired (Applier r) (layer s)) = Some x}
                \<union> {x. snd (ApplyWasSuccessful (Applier r) (layer s)) = Some x})"
proof -
  obtain ok l1 where c: "CheckK8sVersion now (layer s) = (ok, l1)"
    by (cases "CheckK8sVersion now (layer s)")
  have h: "\<not> IsHold (layer s)"
    using assms by (auto simp: processAddonLayer_hold)
  have ok: "ok"
    using assms h by (cases ok) (simp_all add: processAddonLayer_def c Let_def)
  then have l1: "l1 = layer s"
    using c by (auto dest: CheckK8sVersion_ok)
  obtain p hrs e1 where pr: "PruneIsRequired (Applier r) (layer s) = (p, hrs, e1)"
    by (cases "PruneIsRequired (Applier r) (layer s)")
  obtain a e2 where ap: "ApplyIsRequired (Applier r) (layer s) = (a, e2)"
    by (cases "ApplyIsRequired (Applier r) (layer s)")
  obtain w e3 where su: "ApplyWasSuccessful (Applier r) (layer s) = (w, e3)"
    by (cases "ApplyWasSuccessful (Applier r) (layer s)")
  show ?thesis
    using assms h ok
    by (simp add: processAddonLayer_def processPrune_eq processApply_eq checkSuccess_eq
        c l1 pr ap su Let_def split: if_splits)
qed

lemma executor_query_error_marks_failed:
  assumes "fst (processAddonLayer k now r
             \<lparr>layer = CreateLayer (rk8client r) al, calls = [], persisted = [], stored = []\<rparr>) = Some e"
  shows "GetStatus (layer (snd (reconcileLayer k now r al))) = FailedCondition
         \<and> Message (last (Conditions (GetFullStatus (layer (snd (reconcileLayer k now r al)))))) = e
         \<and> fst (fst (reconcileLayer k now r al)) = \<lparr>Requeue = True, RequeueAfter = 0\<rparr>"
proof -
  let ?s0 = "\<lparr>layer = CreateLayer (rk8client r) al, calls = [], persisted = [], stored = []\<rparr>"
  have l: "layer (snd (processAddonLayer k now r ?s0)) = CreateLayer (rk8client r) al"
    using processAddonLayer_error [OF assms] by simp
  have f: "layer (failed_or_same k now (processAddonLayer k now r ?s0))
      = setStatus now FailedCondition (AddonsLayerFailedReason k) e (CreateLayer (rk8client r) al)"
    using assms l by (simp add: failed_or_same_def StatusUpdate_def)
  have d: "\<not> delayed (CreateLayer (rk8client r) al)"
    by (simp add: CreateLayer_def)
  show ?thesis
    by (simp add: reconcileLayer_eq Let_def updateRequeue_session updateRequeue_Result f d
        GetStatus_def GetFullStatus_def NeedsRequeue_def IsDelayed_def IsUpdated_def
        setStatus_State setStatus_Conditions setStatus_requeue setStatus_delayed setStatus_updated)
qed

subsection \<open>Status changes during a pass\<close>

lemma tracked_setStatus: "tracked al l \<Longrightarrow> tracked al (setStatus now st rs ms l)"
  by (simp add: tracked_def setStatus_Spec setStatus_updated setStatus_requeue
      setStatus_StatusVersion)

lemma tracked_flags:
  "tracked al l \<Longrightarrow> tracked al (l\<lparr>updated := True\<rparr>)"
  "tracked al l \<Longrightarrow> tracked al (l\<lparr>requeue := True\<rparr>)"
  "tracked al l \<Longrightarrow> tracked al (l\<lparr>delayed := d\<rparr>)"
  by (auto simp: tracked_def)

lemma tracked_call_method: "tracked al l \<Longrightarrow> tracked al (call_method k now m l)"
  by (cases m)
     (simp_all add: SetStatusK8sVersion_def SetStatusApplying_def SetStatusApplyPending_def
        SetStatusPrunePending_def SetStatusPruned_def SetStatusPruning_def SetStatusDeployed_def
        StatusUpdate_def SetHold_def SetStatusPruningToPruned_def CheckK8sVersion_def
        SetRequeue_def SetDelayed_def SetUpdated_def SetDelayedRequeue_def
        tracked_setStatus tracked_flags split: sum.split)

lemma tracked_processPrune:
  "tracked al (layer s) \<Longrightarrow> tracked al (layer (snd (processPrune k now r s)))"
  using tracked_call_method [of al _ k now M_SetStatusPruning]
    tracked_call_method [of al _ k now M_SetDelayedRequeue]
  by (simp add: processPrune_eq split: prod.split)

lemma tracked_processApply:
  "tracked al (layer s) \<Longrightarrow> tracked al (layer (snd (processApply k now r s)))"
  using tracked_call_method [of al _ k now M_SetStatusApplying]
    tracked_call_method [of al _ k now M_SetDelayedRequeue]
  by (simp add: processApply_eq split: prod.split)

lemma tracked_checkSuccess:
  "tracked al (layer s) \<Longrightarrow> tracked al (layer (snd (checkSuccess k now r s)))"
  using tracked_call_method [of al _ k now M_SetStatusDeployed]
    tracked_call_method [of al _ k now M_SetDelayedRequeue]
  by (simp add: checkSuccess_eq split: prod.split)

lemma tracked_processAddonLayer:
  assumes "tracked al (layer s)"
  shows "tracked al (layer (snd (processAddonLayer k now r s)))"
proof (cases "IsHold (layer s)")
  case True
  then show ?thesis
    using assms tracked_call_method [of al "layer s" k now M_SetHold]
    by (simp add: processAddonLayer_hold)
next
  case False
  obtain ok l1 where c: "CheckK8sVersion now (layer s) = (ok, l1)"
    by (cases "CheckK8sVersion now (layer s)")
  have t1: "tracked al l1"
    using assms c tracked_call_method [of al "layer s" k now M_CheckK8sVersion] by simp
  let ?s1 = "s\<lparr>layer := l1\<rparr>"
  obtain u1 e1 s2 where pp: "processPrune k now r ?s1 = ((u1, e1), s2)"
    by (cases "processPrune k now r ?s1") auto
  have t2: "tracked al (layer s2)"
    using tracked_processPrune [of al ?s1 k now r] t1 pp by simp
  obtain u2 e2 s3 where pa: "processApply k now r s2 = ((u2, e2), s3)"
    by (cases "processApply k now r s2") auto
  have t3: "tracked al (layer s3)"
    using tracked_processApply [of al s2 k now r] t2 pa by simp
  have t4: "tracked al (layer (snd (checkSuccess k now r s3)))"
    using t3 by (rule tracked_checkSuccess)
  have t0: "tracked al (SetDelayedRequeue (SetStatusK8sVersion k now l1))"
    using t1 tracked_call_method [of al l1 k now M_SetStatusK8sVersion]
      tracked_call_method [of al _ k now M_SetDelayedRequeue] by simp
  show ?thesis
    using False t0 t2 t3 t4
    by (simp add: processAddonLayer_def c pp pa Let_def)
qed

lemma tracked_CreateLayer: "tracked al (CreateLayer kc al)"
  by (simp add: tracked_def CreateLayer_def)

lemma tracked_failed_or_same:
  "tracked al (layer (snd p)) \<Longrightarrow> tracked al (layer (failed_or_same k now p))"
  by (simp add: failed_or_same_def StatusUpdate_def tracked_setStatus split: option.split)

lemma tracked_reconcileLayer:
  "tracked al (layer (snd (reconcileLayer k now r al)))"
proof -
  let ?s0 = "\<lparr>layer = CreateLayer (rk8client r) al, calls = [], persisted = [], stored = []\<rparr>"
  have "tracked al (layer (snd (processAddonLayer k now r ?s0)))"
    by (rule tracked_processAddonLayer) (simp add: tracked_CreateLayer)
  then have "tracked al (layer (failed_or_same k now (processAddonLayer k now r ?s0)))"
    by (rule tracked_failed_or_same)
  then show ?thesis
    by (simp add: reconcileLayer_eq Let_def updateRequeue_session)
qed

lemma persisted_processAddonLayer:
  "persisted (snd (processAddonLayer k now r s)) = persisted s"
proof -
  obtain ok l1 where c: "CheckK8sVersion now (layer s) = (ok, l1)"
    by (cases "CheckK8sVersion now (layer s)")
  obtain p hrs e1 where pr: "PruneIsRequired (Applier r) l1 = (p, hrs, e1)"
    by (cases "PruneIsRequired (Applier r) l1")
  obtain a e2 where ap: "ApplyIsRequired (Applier r) l1 = (a, e2)"
    by (cases "ApplyIsRequired (Applier r) l1")
  obtain w e3 where su: "ApplyWasSuccessful (Applier r) l1 = (w, e3)"
    by (cases "ApplyWasSuccessful (Applier r) l1")
  show ?thesis
    by (simp add: processAddonLayer_def processPrune_eq processApply_eq checkSuccess_eq
        c pr ap su Let_def)
qed

lemma reconcileLayer_persisted:
  "persisted (snd (reconcileLayer k now r al)) =
     (if updated (layer (snd (reconcileLayer k now r al)))
      then [addonsLayer (layer (snd (reconcileLayer k now r al)))] else [])"
  by (simp add: reconcileLayer_eq Let_def updateRequeue_session IsUpdated_def GetAddonsLayer_def
      failed_or_same_def persisted_processAddonLayer split: option.split)

lemma stored_processAddonLayer:
  "stored (snd (processAddonLayer k now r s)) = stored s"
proof -
  obtain ok l1 where c: "CheckK8sVersion now (layer s) = (ok, l1)"
    by (cases "CheckK8sVersion now (layer s)")
  obtain p hrs e1 where pr: "PruneIsRequired (Applier r) l1 = (p, hrs, e1)"
    by (cases "PruneIsRequired (Applier r) l1")
  obtain a e2 where ap: "ApplyIsRequired (Applier r) l1 = (a, e2)"
    by (cases "ApplyIsRequired (Applier r) l1")
  obtain w e3 where su: "ApplyWasSuccessful (Applier r) l1 = (w, e3)"
    by (cases "ApplyWasSuccessful (Applier r) l1")
  show ?thesis
    by (simp add: processAddonLayer_def processPrune_eq processApply_eq checkSuccess_eq
        c pr ap su Let_def)
qed

lemma reconcileLayer_stored:
  "stored (snd (reconcileLayer k now r al)) =
     (if updated (layer (snd (reconcileLayer k now r al)))
         \<and> StatusWriterUpdate r (addonsLayer (layer (snd (reconcileLayer k now r al)))) = None
      then [addonsLayer (layer (snd (reconcileLayer k now r al)))] else [])"
  by (simp add: reconcileLayer_eq Let_def updateRequeue_session IsUpdated_def GetAddonsLayer_def
      failed_or_same_def stored_processAddonLayer split: option.split)

lemma reconcileLayer_rerr:
  "snd (fst (reconcileLayer k now r al)) =
     (if updated (layer (snd (reconcileLayer k now r al)))
      then StatusWriterUpdate r (addonsLayer (layer (snd (reconcileLayer k now r al))))
      else None)"
  by (simp add: reconcileLayer_eq Let_def updateRequeue_session updateRequeue_rerr IsUpdated_def
      GetAddonsLayer_def)

lemma reconcileLayer_Requeue:
  "requeue (layer (snd (reconcileLayer k now r al))) \<Longrightarrow>
     Requeue (fst (fst (reconcileLayer k now r al)))"
  by (simp add: reconcileLayer_eq Let_def updateRequeue_session updateRequeue_Result
      NeedsRequeue_def split: if_splits)

subsection \<open>The mapping\<close>

lemma publishLayers_append:
  "publishLayers env repo dataPath w addons pre = Returned reqs w2 \<Longrightarrow>
     publishLayers env repo dataPath w addons (pre @ later) = publishLayers env repo dataPath w2 reqs later"
proof (induction pre arbitrary: w addons)
  case Nil
  then show ?case by simp
next
  case (Cons a pre)
  then show ?case
    by (auto simp: Let_def split: prod.splits option.splits)
qed

lemma publishLayers_Returned:
  "publishLayers env repo dataPath w addons items = Returned reqs w' \<Longrightarrow>
     reqs = addons @ map request_of (filter (references repo) items)
     \<and> links_ok env dataPath (files w) items"
proof (induction items arbitrary: w addons)
  case Nil
  then show ?case by simp
next
  case (Cons a items)
  obtain err fs1 where l: "os_Link env (files w) (GetSourcePath_of (RootPath env) a)
      (dataPath @ ''/'' @ Path (Source (Spec a))) = (err, fs1)"
    by (cases "os_Link env (files w) (GetSourcePath_of (RootPath env) a)
      (dataPath @ ''/'' @ Path (Source (Spec a)))")
  let ?addons1 = "if references repo a then addons @ [request_of a] else addons"
  let ?w2 = "(log_Info ''adding layer to list'' w)\<lparr>files := fs1\<rparr>"
  from Cons.prems l have e: "err = None"
    by (cases err) (simp_all add: Let_def log_Info_def)
  from Cons.prems l e have "publishLayers env repo dataPath ?w2 ?addons1 items = Returned reqs w'"
    by (simp add: Let_def log_Info_def)
  then have "reqs = ?addons1 @ map request_of (filter (references repo) items)
      \<and> links_ok env dataPath (files ?w2) items"
    by (rule Cons.IH)
  then show ?case
    using l e by simp
qed

lemma publishLayers_link_fails:
  "os_Link env (files w) (GetSourcePath_of (RootPath env) a) (dataPath @ ''/'' @ Path (Source (Spec a)))
     = (Some e, fs1) \<Longrightarrow>
   publishLayers env repo dataPath w addons (a # rest) =
     ProcessExit 1
       \<lparr>files = fs1,
        logged = logged w @ [LogInfo ''adding layer to list'',
                   LogError e (''unable link to new data for addonsLayers: '' @ Name a)]\<rparr>"
  by (simp add: Let_def log_Info_def log_Error_def)

lemma publishLayers_links_not_ok:
  "\<not> links_ok env dataPath (files w) items \<Longrightarrow>
     \<exists>w'. publishLayers env repo dataPath w addons items = ProcessExit 1 w'"
proof (induction items arbitrary: w addons)
  case Nil
  then show ?case by simp
next
  case (Cons a items)
  obtain err fs1 where l: "os_Link env (files w) (GetSourcePath_of (RootPath env) a)
      (dataPath @ ''/'' @ Path (Source (Spec a))) = (err, fs1)"
    by (cases "os_Link env (files w) (GetSourcePath_of (RootPath env) a)
      (dataPath @ ''/'' @ Path (Source (Spec a)))")
  show ?case
  proof (cases err)
    case (Some e)
    then show ?thesis
      using l publishLayers_link_fails [of env w a dataPath e fs1 repo addons items] by blast
  next
    case None
    let ?addons1 = "if references repo a then addons @ [request_of a] else addons"
    let ?w2 = "(log_Info ''adding layer to list'' w)\<lparr>files := fs1\<rparr>"
    from Cons.prems l None have "\<not> links_ok env dataPath (files ?w2) items"
      by simp
    then have "\<exists>w'. publishLayers env repo dataPath ?w2 ?addons1 items = ProcessExit 1 w'"
      by (rule Cons.IH)
    then show ?thesis
      using l None by (simp add: Let_def log_Info_def)
  qed
qed

lemma repoMapperFunc_synced:
  "SyncRepo env (check_kind kind w) repo = (Some (dataPath, None), w1) \<Longrightarrow>
   List rc = (items, None) \<Longrightarrow>
     repoMapperFunc env rc w (GitRepositoryObject kind repo) = publishLayers env repo dataPath w1 [] items"
  by (simp add: repoMapperFunc_def)

text \<open>
  A repository without an artifact makes the mapping panic. With an artifact, the pattern
  given to \<open>TempDir\<close> always contains a path separator; where \<open>TempDir\<close> answers with an
  error (as the Go library does for such a pattern from 1.15 on), the mapping returns the
  empty batch and no link is attempted.
\<close>

lemma nil_artifact_panics:
  "RepoArtifact repo = None \<Longrightarrow>
     repoMapperFunc env rc w (GitRepositoryObject kind repo) = Panicked (check_kind kind w)"
  by (simp add: repoMapperFunc_def SyncRepo_def)

lemma TempDir_pattern_has_separator:
  "CHR ''/'' \<in> set (RepoName repo @ ''/'' @ Revision artifact @ ''-*'')"
  by simp

lemma files_check_kind: "files (check_kind kind w) = files w"
  by (simp add: check_kind_def log_Error_def)

lemma TempDir_error_returns_empty_batch:
  "RepoArtifact repo = Some artifact \<Longrightarrow>
   ioutil_TempDir env (files w) [] (RepoName repo @ ''/'' @ Revision artifact @ ''-*'')
     = ((d, Some e), fs1) \<Longrightarrow>
     repoMapperFunc env rc w (GitRepositoryObject kind repo) =
       Returned []
         (log_Error (''failed to create temp dir, error: '' @ e) ''unable to sync repository''
            ((log_Info ''New revision detected'' (check_kind kind w))\<lparr>files := fs1\<rparr>))"
  by (simp add: repoMapperFunc_def SyncRepo_def Let_def files_check_kind log_Info_def)

lemma mapping_on_go115_returns_empty:
  "repoMapperFunc env_go115 rc_two world_sources (GitRepositoryObject kind_repo repo_addons) =
     Returned []
       \<lparr>files = files world_sources,
        logged = [LogInfo ''New revision detected'',
                  LogError ''failed to create temp dir, error: pattern contains path separator''
                    ''unable to sync repository'']\<rparr>"
  by (simp add: mapper_defs mapper_input_defs input_defs Let_def)


section \<open>The claims\<close>

text \<open>
  C1: In every evaluation pass at most one external mutation is issued, that is at most one
  of the executor calls \<open>Prune\<close> and \<open>Apply\<close>; when the prune branch has called \<open>Prune\<close>
  the apply branch is not reached in that pass (neither \<open>ApplyIsRequired\<close> nor \<open>Apply\<close>
  is called).
\<close>

theorem one_mutation_per_pass:
  "snd (Reconcile k now r req) = Some s \<Longrightarrow>
     length (filter is_mutation (calls s)) \<le> 1 \<and>
     ((\<exists>hrs. CallPrune hrs \<in> set (calls s)) \<longrightarrow>
        CallApplyIsRequired \<notin> set (calls s) \<and> CallApply \<notin> set (calls s))"
proof -
  assume a: "snd (Reconcile k now r req) = Some s"
  then obtain al where "Get r req = Found al" and "s = snd (reconcileLayer k now r al)"
    by (auto simp: Reconcile_def split: get_result.splits prod.splits)
  then have "calls s \<in> call_shapes"
    by (simp add: reconcileLayer_calls)
  then show ?thesis
    by (rule call_shapes_one_mutation)
qed


theorem one_mutation_per_pass_witness:
  "snd (Reconcile texts0 0 rc_prune req_x) \<noteq> None
   \<and> calls (the (snd (Reconcile texts0 0 rc_prune req_x)))
       = [CallPruneIsRequired, CallPrune [''old-release'']]
   \<and> length (filter is_mutation (calls (the (snd (Reconcile texts0 0 rc_prune req_x))))) \<le> 1
   \<and> CallApplyIsRequired \<notin> set (calls (the (snd (Reconcile texts0 0 rc_prune req_x))))
   \<and> CallApply \<notin> set (calls (the (snd (Reconcile texts0 0 rc_prune req_x))))"
proof -
  let ?R = "Reconcile texts0 0 rc_prune req_x"
  have ne: "snd ?R \<noteq> None"
    by (simp add: Reconcile_def rc_defs input_defs split: prod.split)
  then have ev: "snd ?R = Some (the (snd ?R))"
    by simp
  have cs: "calls (the (snd ?R)) = [CallPruneIsRequired, CallPrune [''old-release'']]"
    by (simp add: layer_defs controller_defs condition_defs rc_defs input_defs Let_def)
  show ?thesis
    using one_mutation_per_pass [OF ev] ne cs by simp
qed

text \<open>
  C2: An executor call that returns an error should abort the pass, mark the layer
  \<open>Failed\<close> with the message of the error, and schedule an immediate requeue. The pass
  below is one where \<open>Prune\<close> returns an error: the error is dropped, the layer stays in
  \<open>Pruning\<close>, no condition carries the message, and the requeue is a delayed one.
\<close>

theorem prune_error_is_dropped:
  "Prune (Applier rc_prune_fails) (SetStatusPruning texts0 0 (CreateLayer (rk8client rc_prune_fails) layer_x))
       [''old-release''] = Some ''prune failed''
   \<and> calls (the (snd (Reconcile texts0 0 rc_prune_fails req_x)))
       = [CallPruneIsRequired, CallPrune [''old-release'']]
   \<and> GetStatus (layer (the (snd (Reconcile texts0 0 rc_prune_fails req_x)))) = PruningCondition
   \<and> GetStatus (layer (the (snd (Reconcile texts0 0 rc_prune_fails req_x)))) \<noteq> FailedCondition
   \<and> map Message (Conditions (GetFullStatus (layer (the (snd (Reconcile texts0 0 rc_prune_fails req_x))))))
       = [''pruning in progress'']
   \<and> fst (Reconcile texts0 0 rc_prune_fails req_x) = (\<lparr>Requeue = True, RequeueAfter = 60\<rparr>, None)"
  by (simp add: layer_defs controller_defs condition_defs rc_defs input_defs Let_def)

text \<open>
  C3: In every pass in which \<open>ApplyIsRequired\<close> is asked and reports true while the
  dependencies of the layer are not all deployed, the executor call \<open>Apply\<close> is not made,
  the resource (and so its state) is left as it was loaded, and a delayed requeue is
  marked: the pass asks for a requeue after the configured interval.
\<close>

theorem unsatisfied_dependency_blocks_apply:
  assumes "Get r req = Found al"
    and "snd (Reconcile k now r req) = Some s"
    and "CallApplyIsRequired \<in> set (calls s)"
    and "ApplyIsRequired (Applier r) (CreateLayer (rk8client r) al) = (True, None)"
    and "\<not> DependenciesDeployed (CreateLayer (rk8client r) al)"
  shows "CallApply \<notin> set (calls s)
         \<and> calls s = [CallPruneIsRequired, CallApplyIsRequired]
         \<and> addonsLayer (layer s) = al
         \<and> delayed (layer s) \<and> requeue (layer s)
         \<and> fst (Reconcile k now r req) = (\<lparr>Requeue = True, RequeueAfter = Interval (Spec al)\<rparr>, None)"
proof -
  let ?s0 = "\<lparr>layer = CreateLayer (rk8client r) al, calls = [], persisted = [], stored = []\<rparr>"
  have s: "s = snd (reconcileLayer k now r al)"
    and f: "fst (Reconcile k now r req) = fst (reconcileLayer k now r al)"
    using assms(1,2) by (auto simp: Reconcile_def split: prod.splits)
  have "calls s = calls (snd (processAddonLayer k now r ?s0))"
    by (simp add: s reconcileLayer_eq Let_def updateRequeue_session failed_or_same_calls)
  with assms(3) have "CallApplyIsRequired \<in> set (calls (snd (processAddonLayer k now r ?s0)))"
    by simp
  then have p: "processAddonLayer k now r ?s0 =
      (None, ?s0\<lparr>layer := SetDelayedRequeue (layer ?s0),
                 calls := [CallPruneIsRequired, CallApplyIsRequired]\<rparr>)"
    using assms(4,5) by (intro processAddonLayer_asks_apply) simp_all
  have rl: "reconcileLayer k now r al =
      (let u = updateRequeue r
                 (?s0\<lparr>layer := SetDelayedRequeue (layer ?s0),
                       calls := [CallPruneIsRequired, CallApplyIsRequired]\<rparr>)
                 \<lparr>Requeue = False, RequeueAfter = 0\<rparr> None
       in ((fst (snd u), snd (snd u)), fst u))"
    by (simp add: reconcileLayer_eq p failed_or_same_def)
  show ?thesis
    by (simp add: s f rl updateRequeue_def update_eq Let_def
        SetDelayedRequeue_def CreateLayer_def IsUpdated_def NeedsRequeue_def IsDelayed_def
        GetDelay_def)
qed

theorem unsatisfied_dependency_blocks_apply_witness:
  "Get rc_apply req_x = Found layer_x
   \<and> snd (Reconcile texts0 0 rc_apply req_x) \<noteq> None
   \<and> CallApplyIsRequired \<in> set (calls (the (snd (Reconcile texts0 0 rc_apply req_x))))
   \<and> ApplyIsRequired (Applier rc_apply) (CreateLayer (rk8client rc_apply) layer_x) = (True, None)
   \<and> \<not> DependenciesDeployed (CreateLayer (rk8client rc_apply) layer_x)
   \<and> CallApply \<notin> set (calls (the (snd (Reconcile texts0 0 rc_apply req_x))))
   \<and> addonsLayer (layer (the (snd (Reconcile texts0 0 rc_apply req_x)))) = layer_x
   \<and> fst (Reconcile texts0 0 rc_apply req_x) = (\<lparr>Requeue = True, RequeueAfter = 60\<rparr>, None)"
proof -
  let ?R = "Reconcile texts0 0 rc_apply req_x"
  have g: "Get rc_apply req_x = Found layer_x"
    by (simp add: rc_defs input_defs)
  have ne: "snd ?R \<noteq> None"
    by (simp add: Reconcile_def g split: prod.split)
  then have ev: "snd ?R = Some (the (snd ?R))"
    by simp
  have c: "CallApplyIsRequired \<in> set (calls (the (snd ?R)))"
    by (simp add: layer_defs controller_defs condition_defs rc_defs input_defs Let_def)
  have a: "ApplyIsRequired (Applier rc_apply) (CreateLayer (rk8client rc_apply) layer_x) = (True, None)"
    by (simp add: rc_defs input_defs)
  have d: "\<not> DependenciesDeployed (CreateLayer (rk8client rc_apply) layer_x)"
    by (simp add: DependenciesDeployed_def)
  have i: "Interval (Spec layer_x) = 60"
    by (simp add: layer_x_def)
  show ?thesis
    using unsatisfied_dependency_blocks_apply [OF g ev c a d] g ne c a d i by simp
qed

text \<open>
  C4: For every layer whose \<open>hold\<close> flag is set, the pass ends with the layer in the state
  \<open>Hold\<close> and makes no executor call; when the layer is in \<open>Hold\<close> already, no condition
  is appended (the resource is unchanged and nothing is written).
\<close>

theorem held_layer_ends_in_hold:
  assumes "Get r req = Found al" and "Hold (Spec al)"
  shows "\<exists>s. snd (Reconcile k now r req) = Some s
           \<and> GetStatus (layer s) = HoldCondition
           \<and> calls s = []
           \<and> (State (Status al) = HoldCondition \<longrightarrow> addonsLayer (layer s) = al \<and> persisted s = [])"
proof -
  let ?s0 = "\<lparr>layer = CreateLayer (rk8client r) al, calls = [], persisted = [], stored = []\<rparr>"
  have h: "IsHold (layer ?s0)"
    using assms(2) by (simp add: IsHold_def CreateLayer_def)
  have p: "processAddonLayer k now r ?s0 = (None, ?s0\<lparr>layer := SetHold k now (layer ?s0)\<rparr>)"
    using h by (rule processAddonLayer_hold)
  have "snd (Reconcile k now r req) = Some (snd (reconcileLayer k now r al))"
    using assms(1) by (simp add: Reconcile_def split: prod.split)
  moreover have rl: "snd (reconcileLayer k now r al) =
      fst (updateRequeue r (?s0\<lparr>layer := SetHold k now (layer ?s0)\<rparr>)
             \<lparr>Requeue = False, RequeueAfter = 0\<rparr> None)"
    by (simp add: reconcileLayer_eq p failed_or_same_def Let_def)
  moreover have "GetStatus (layer (snd (reconcileLayer k now r al))) = HoldCondition"
    using assms(2)
    by (simp add: rl updateRequeue_session
        SetHold_def IsHold_def CreateLayer_def GetStatus_def StatusUpdate_def setStatus_State)
  moreover have "calls (snd (reconcileLayer k now r al)) = []"
    by (simp add: rl updateRequeue_session)
  moreover have "State (Status al) = HoldCondition \<longrightarrow>
      addonsLayer (layer (snd (reconcileLayer k now r al))) = al
      \<and> persisted (snd (reconcileLayer k now r al)) = []"
    by (simp add: rl updateRequeue_session
        SetHold_def IsHold_def CreateLayer_def GetStatus_def IsUpdated_def)
  ultimately show ?thesis by blast
qed


theorem held_layer_ends_in_hold_witness:
  "Get rc_held req_x = Found held_x \<and> Hold (Spec held_x)
   \<and> snd (Reconcile texts0 0 rc_held req_x) \<noteq> None
   \<and> GetStatus (layer (the (snd (Reconcile texts0 0 rc_held req_x)))) = HoldCondition
   \<and> calls (the (snd (Reconcile texts0 0 rc_held req_x))) = []"
proof -
  have g: "Get rc_held req_x = Found held_x"
    by (simp add: rc_defs input_defs)
  have h: "Hold (Spec held_x)"
    by (simp add: input_defs)
  show ?thesis
    using held_layer_ends_in_hold [OF g h, of texts0 0] g h by auto
qed

text \<open>
  C5: On a layer that is not held, a cluster version that is not below the prerequisite
  (equal or above) should let the pass proceed past the gate. The pass below runs on a
  cluster whose version equals the prerequisite: the layer is sent to
  \<open>WaitingForClusterVersion\<close> with a delayed requeue and the executor is not asked
  anything.
\<close>

theorem equal_version_waits:
  "ServerVersion (rk8client rc_equal_version) = Inr (K8sVersion (Spec layer_x))
   \<and> \<not> Hold (Spec layer_x)
   \<and> calls (the (snd (Reconcile texts0 0 rc_equal_version req_x))) = []
   \<and> GetStatus (layer (the (snd (Reconcile texts0 0 rc_equal_version req_x)))) = K8sVersionCondition
   \<and> fst (Reconcile texts0 0 rc_equal_version req_x) = (\<lparr>Requeue = True, RequeueAfter = 60\<rparr>, None)"
  by (simp add: layer_defs controller_defs condition_defs rc_defs input_defs Let_def)

text \<open>
  C6: The retained conditions should never exceed \<open>MaxConditions\<close>, the oldest being
  evicted. The transition below starts from a layer that holds \<open>MaxConditions\<close>
  conditions: afterwards it holds one more, and the oldest is still the first.
\<close>

theorem conditions_exceed_MaxConditions:
  "length (Conditions (GetFullStatus (CreateLayer cluster_v118 worn_x))) = MaxConditions
   \<and> length (Conditions (GetFullStatus (SetStatusPruning texts0 0 (CreateLayer cluster_v118 worn_x))))
       = MaxConditions + 1
   \<and> MaxConditions
       < length (Conditions (GetFullStatus (SetStatusPruning texts0 0 (CreateLayer cluster_v118 worn_x))))
   \<and> hd (Conditions (GetFullStatus (SetStatusPruning texts0 0 (CreateLayer cluster_v118 worn_x))))
       = hd (Conditions (GetFullStatus (CreateLayer cluster_v118 worn_x)))"
  by (simp add: layer_defs worn_x_def MaxConditions_def input_defs)

text \<open>
  C7: The state of a layer is the type of the condition appended last. This holds after
  every \<open>setStatus\<close>, through which every status transition goes; it holds of a resource
  with an empty status (no condition yet); and every method of the layer preserves it.
\<close>

theorem state_is_type_of_last_condition:
  "(state_is_last_type l \<longrightarrow> state_is_last_type (call_method k now m l))
   \<and> state_is_last_type (CreateLayer kc (al\<lparr>Status := \<lparr>State = [], StatusVersion = [], Conditions = []\<rparr>\<rparr>))
   \<and> Conditions (GetFullStatus (setStatus now status reason message l)) \<noteq> []
   \<and> GetStatus (setStatus now status reason message l)
       = Type (last (Conditions (GetFullStatus (setStatus now status reason message l))))"
  by (simp add: call_method_inv)
     (simp add: state_is_last_type_def GetFullStatus_def GetStatus_def CreateLayer_def
        setStatus_State setStatus_Conditions)

theorem state_is_type_of_last_condition_witness:
  "state_is_last_type (SetStatusApplying texts0 0 (CreateLayer cluster_v118 layer_x))
   \<and> state_is_last_type
        (call_method texts0 1 M_SetStatusDeployed (SetStatusApplying texts0 0 (CreateLayer cluster_v118 layer_x)))
   \<and> GetStatus (call_method texts0 1 M_SetStatusDeployed
        (SetStatusApplying texts0 0 (CreateLayer cluster_v118 layer_x))) = DeployedCondition
   \<and> map Type (Conditions (GetFullStatus (call_method texts0 1 M_SetStatusDeployed
        (SetStatusApplying texts0 0 (CreateLayer cluster_v118 layer_x)))))
       = [ApplyingCondition, DeployedCondition]"
proof -
  let ?l = "SetStatusApplying texts0 0 (CreateLayer cluster_v118 layer_x)"
  have h: "state_is_last_type ?l"
    by (simp add: SetStatusApplying_def setStatus_inv)
  have e: "GetStatus (call_method texts0 1 M_SetStatusDeployed ?l) = DeployedCondition
      \<and> map Type (Conditions (GetFullStatus (call_method texts0 1 M_SetStatusDeployed ?l)))
          = [ApplyingCondition, DeployedCondition]"
    by (simp add: layer_defs condition_defs input_defs)
  show ?thesis
    using state_is_type_of_last_condition [of ?l texts0 1 M_SetStatusDeployed] h e by blast
qed

text \<open>
  C8 does not hold as stated: a link failure for one layer ends the process, so the
  remaining layers are not processed and no batch is returned. Here the source tree of
  the layers is missing, the link for \<open>layer_x\<close> fails, the failure is logged and the
  process exits with status 1; \<open>layer_y\<close>, which references the repository too, is never
  looked at and gets no request. (The sync succeeds on the Go library before 1.15, the
  parent of the temporary directory being there.)
\<close>

theorem link_failure_exits_process_counterexample:
  "references repo_addons layer_y
   \<and> repoMapperFunc env_go114 rc_two world_bare (GitRepositoryObject kind_repo repo_addons) =
       ProcessExit 1
         \<lparr>files = [''/tmp'', ''/tmp/addons'', ''/tmp/addons/master'',
                   ''/tmp/addons/master/4e0e6f8-123456'',
                   ''/tmp/addons/master/4e0e6f8-123456/README''],
          logged = [LogInfo ''New revision detected'', LogInfo ''fetched artifact'',
                    LogInfo ''unpacked'', LogInfo ''adding layer to list'',
                    LogError
                      ''link /repos/gitops/addons/x /tmp/addons/master/4e0e6f8-123456/x: no such file or directory''
                      ''unable link to new data for addonsLayers: layer-x'']\<rparr>"
  by (simp add: mapper_defs mapper_input_defs input_defs Let_def)

text \<open>
  C8, amended: once the sync of the repository and the listing of the layers have
  succeeded, a link failure for a layer is recorded in the log and then ends the process
  with exit status 1 at that layer, whatever layers are listed after it, and no batch is
  returned; when the mapping returns a batch, no link has failed and the batch holds the
  request of every listed layer that references the repository, in listing order.
\<close>

theorem link_failure_exits_process:
  assumes "SyncRepo env (check_kind kind w) repo = (Some (dataPath, None), w1)"
    and "List rc = (items, None)"
  shows "(items = pre @ a # rest
          \<and> publishLayers env repo dataPath w1 [] pre = Returned reqs w2
          \<and> os_Link env (files w2) (GetSourcePath_of (RootPath env) a)
               (dataPath @ ''/'' @ Path (Source (Spec a))) = (Some e, fs3)
          \<longrightarrow> repoMapperFunc env rc w (GitRepositoryObject kind repo) =
                ProcessExit 1
                  \<lparr>files = fs3,
                   logged = logged w2 @ [LogInfo ''adding layer to list'',
                              LogError e (''unable link to new data for addonsLayers: '' @ Name a)]\<rparr>)
         \<and> (\<not> links_ok env dataPath (files w1) items
          \<longrightarrow> (\<exists>w3. repoMapperFunc env rc w (GitRepositoryObject kind repo) = ProcessExit 1 w3))
         \<and> (repoMapperFunc env rc w (GitRepositoryObject kind repo) = Returned batch w4
          \<longrightarrow> links_ok env dataPath (files w1) items
              \<and> batch = map request_of (filter (references repo) items))"
proof -
  have m: "repoMapperFunc env rc w (GitRepositoryObject kind repo)
      = publishLayers env repo dataPath w1 [] items"
    using assms by (rule repoMapperFunc_synced)
  have a: "items = pre @ a # rest
          \<and> publishLayers env repo dataPath w1 [] pre = Returned reqs w2
          \<and> os_Link env (files w2) (GetSourcePath_of (RootPath env) a)
               (dataPath @ ''/'' @ Path (Source (Spec a))) = (Some e, fs3)
          \<longrightarrow> repoMapperFunc env rc w (GitRepositoryObject kind repo) =
                ProcessExit 1
                  \<lparr>files = fs3,
                   logged = logged w2 @ [LogInfo ''adding layer to list'',
                              LogError e (''unable link to new data for addonsLayers: '' @ Name a)]\<rparr>"
  proof
    assume h: "items = pre @ a # rest
          \<and> publishLayers env repo dataPath w1 [] pre = Returned reqs w2
          \<and> os_Link env (files w2) (GetSourcePath_of (RootPath env) a)
               (dataPath @ ''/'' @ Path (Source (Spec a))) = (Some e, fs3)"
    then have "publishLayers env repo dataPath w1 [] items
        = publishLayers env repo dataPath w2 reqs (a # rest)"
      by (simp add: publishLayers_append)
    also have "\<dots> = ProcessExit 1
                  \<lparr>files = fs3,
                   logged = logged w2 @ [LogInfo ''adding layer to list'',
                              LogError e (''unable link to new data for addonsLayers: '' @ Name a)]\<rparr>"
      using h by (intro publishLayers_link_fails) simp
    finally show "repoMapperFunc env rc w (GitRepositoryObject kind repo) =
                ProcessExit 1
                  \<lparr>files = fs3,
                   logged = logged w2 @ [LogInfo ''adding layer to list'',
                              LogError e (''unable link to new data for addonsLayers: '' @ Name a)]\<rparr>"
      by (simp add: m)
  qed
  have b: "\<not> links_ok env dataPath (files w1) items
          \<longrightarrow> (\<exists>w3. repoMapperFunc env rc w (GitRepositoryObject kind repo) = ProcessExit 1 w3)"
    using publishLayers_links_not_ok [of env dataPath w1 items repo "[]"] by (simp add: m)
  have c: "repoMapperFunc env rc w (GitRepositoryObject kind repo) = Returned batch w4
          \<longrightarrow> links_ok env dataPath (files w1) items
              \<and> batch = map request_of (filter (references repo) items)"
    using publishLayers_Returned [of env repo dataPath w1 "[]" items batch w4] by (simp add: m)
  from a b c show ?thesis by blast
qed

theorem link_failure_exits_process_witness:
  "SyncRepo env_go114 (check_kind kind_repo world_bare) repo_addons
     = (Some (tmp_addons, None), synced world_bare)
   \<and> List rc_two = ([layer_x, layer_y], None)
   \<and> [layer_x, layer_y] = [] @ layer_x # [layer_y]
   \<and> publishLayers env_go114 repo_addons tmp_addons (synced world_bare) [] []
       = Returned [] (synced world_bare)
   \<and> os_Link env_go114 (files (synced world_bare)) (GetSourcePath_of (RootPath env_go114) layer_x)
        (tmp_addons @ ''/'' @ Path (Source (Spec layer_x)))
       = (Some ''link /repos/gitops/addons/x /tmp/addons/master/4e0e6f8-123456/x: no such file or directory'',
          files (synced world_bare))
   \<and> repoMapperFunc env_go114 rc_two world_bare (GitRepositoryObject kind_repo repo_addons) =
       ProcessExit 1
         \<lparr>files = files (synced world_bare),
          logged = logged (synced world_bare) @ [LogInfo ''adding layer to list'',
            LogError
              ''link /repos/gitops/addons/x /tmp/addons/master/4e0e6f8-123456/x: no such file or directory''
              (''unable link to new data for addonsLayers: '' @ Name layer_x)]\<rparr>
   \<and> \<not> links_ok env_go114 tmp_addons (files (synced world_bare)) [layer_x, layer_y]
   \<and> SyncRepo env_go114 (check_kind kind_repo world_sources) repo_addons
       = (Some (tmp_addons, None), synced world_sources)
   \<and> repoMapperFunc env_go114 rc_two world_sources (GitRepositoryObject kind_repo repo_addons) =
       Returned [request_of layer_x, request_of layer_y]
         \<lparr>files = files (synced world_sources) @ [tmp_addons @ ''/x'', tmp_addons @ ''/y''],
          logged = logged (synced world_sources)
                     @ [LogInfo ''adding layer to list'', LogInfo ''adding layer to list'']\<rparr>
   \<and> links_ok env_go114 tmp_addons (files (synced world_sources)) [layer_x, layer_y]
   \<and> [request_of layer_x, request_of layer_y]
       = map request_of (filter (references repo_addons) [layer_x, layer_y])"
proof -
  have s1: "SyncRepo env_go114 (check_kind kind_repo world_bare) repo_addons
      = (Some (tmp_addons, None), synced world_bare)"
    by (simp add: mapper_defs mapper_input_defs Let_def)
  have s2: "SyncRepo env_go114 (check_kind kind_repo world_sources) repo_addons
      = (Some (tmp_addons, None), synced world_sources)"
    by (simp add: mapper_defs mapper_input_defs Let_def)
  have l: "List rc_two = ([layer_x, layer_y], None)"
    by (simp add: rc_two_def reconciler_of_def)
  have i: "[layer_x, layer_y] = [] @ layer_x # [layer_y]"
    by simp
  have p: "publishLayers env_go114 repo_addons tmp_addons (synced world_bare) [] []
      = Returned [] (synced world_bare)"
    by simp
  have f: "os_Link env_go114 (files (synced world_bare)) (GetSourcePath_of (RootPath env_go114) layer_x)
        (tmp_addons @ ''/'' @ Path (Source (Spec layer_x)))
       = (Some ''link /repos/gitops/addons/x /tmp/addons/master/4e0e6f8-123456/x: no such file or directory'',
          files (synced world_bare))"
    by (simp add: mapper_defs mapper_input_defs input_defs)
  have n: "\<not> links_ok env_go114 tmp_addons (files (synced world_bare)) [layer_x, layer_y]"
    using f by simp
  have r: "repoMapperFunc env_go114 rc_two world_sources (GitRepositoryObject kind_repo repo_addons) =
       Returned [request_of layer_x, request_of layer_y]
         \<lparr>files = files (synced world_sources) @ [tmp_addons @ ''/x'', tmp_addons @ ''/y''],
          logged = logged (synced world_sources)
                     @ [LogInfo ''adding layer to list'', LogInfo ''adding layer to list'']\<rparr>"
    by (simp add: mapper_defs mapper_input_defs input_defs Let_def)
  show ?thesis
    using link_failure_exits_process [OF s1 l, where pre = "[]" and a = layer_x
        and rest = "[layer_y]" and reqs = "[]" and ?w2.0 = "synced world_bare"
        and e = "''link /repos/gitops/addons/x /tmp/addons/master/4e0e6f8-123456/x: no such file or directory''"
        and ?fs3.0 = "files (synced world_bare)"]
      link_failure_exits_process [OF s2 l, where batch = "[request_of layer_x, request_of layer_y]"
        and ?w4.0 = "\<lparr>files = files (synced world_sources) @ [tmp_addons @ ''/x'', tmp_addons @ ''/y''],
          logged = logged (synced world_sources)
                     @ [LogInfo ''adding layer to list'', LogInfo ''adding layer to list'']\<rparr>"]
      s1 s2 l i p f n r
    by blast
qed

text \<open>
  C9: Marking a layer deployed is idempotent: a second call in a row changes nothing, so
  two calls on a layer that is not deployed append exactly one condition, and a call on a
  layer that is deployed already appends none.
\<close>

theorem SetStatusDeployed_idempotent:
  "SetStatusDeployed k now2 (SetStatusDeployed k now1 l) = SetStatusDeployed k now1 l
   \<and> (GetStatus l \<noteq> DeployedCondition \<longrightarrow>
        length (Conditions (GetFullStatus (SetStatusDeployed k now2 (SetStatusDeployed k now1 l))))
          = length (Conditions (GetFullStatus l)) + 1)
   \<and> (GetStatus l = DeployedCondition \<longrightarrow> SetStatusDeployed k now1 l = l)"
  by (simp add: SetStatusDeployed_def GetStatus_def GetFullStatus_def setStatus_State
      setStatus_Conditions)

theorem SetStatusDeployed_idempotent_witness:
  "GetStatus (CreateLayer cluster_v118 layer_x) \<noteq> DeployedCondition
   \<and> length (Conditions (GetFullStatus
        (SetStatusDeployed texts0 1 (SetStatusDeployed texts0 0 (CreateLayer cluster_v118 layer_x)))))
       = length (Conditions (GetFullStatus (CreateLayer cluster_v118 layer_x))) + 1
   \<and> GetStatus (CreateLayer cluster_v118 worn_x) = DeployedCondition
   \<and> SetStatusDeployed texts0 0 (CreateLayer cluster_v118 worn_x) = CreateLayer cluster_v118 worn_x"
proof -
  have a: "GetStatus (CreateLayer cluster_v118 layer_x) \<noteq> DeployedCondition"
    by (simp add: layer_defs condition_defs input_defs)
  have b: "GetStatus (CreateLayer cluster_v118 worn_x) = DeployedCondition"
    by (simp add: layer_defs worn_x_def)
  show ?thesis
    using SetStatusDeployed_idempotent [of texts0 1 0 "CreateLayer cluster_v118 layer_x"]
      SetStatusDeployed_idempotent [of texts0 0 0 "CreateLayer cluster_v118 worn_x"] a b
    by blast
qed

text \<open>
  C10 does not hold as stated: a pass that changes the state is not always persisted.
  On a cluster that refuses the status write the pass below changes the state to
  \<open>Deployed\<close>, nothing is stored, and the pass returns the error of the write.
\<close>

theorem failed_write_is_not_persisted:
  "Status (addonsLayer (layer (snd (reconcileLayer texts0 0 rc_write_fails layer_x)))) \<noteq> Status layer_x
   \<and> GetStatus (layer (snd (reconcileLayer texts0 0 rc_write_fails layer_x))) = DeployedCondition
   \<and> persisted (snd (reconcileLayer texts0 0 rc_write_fails layer_x))
       = [addonsLayer (layer (snd (reconcileLayer texts0 0 rc_write_fails layer_x)))]
   \<and> stored (snd (reconcileLayer texts0 0 rc_write_fails layer_x)) = []
   \<and> fst (reconcileLayer texts0 0 rc_write_fails layer_x)
       = (\<lparr>Requeue = True, RequeueAfter = 0\<rparr>, Some ''update failed'')"
  by (simp add: layer_defs controller_defs condition_defs rc_defs input_defs Let_def)

text \<open>
  C10, amended: every \<open>setStatus\<close> sets the flags \<open>updated\<close> and \<open>requeue\<close> and records the
  desired version of the descriptor both in the condition it appends and as the observed
  version of the status. So a pass that changes the status hands the resource to the
  status writer, once, asks for a requeue, and leaves the observed version equal to the
  desired one; the change is persisted when the writer accepts it, and when the writer
  fails nothing is persisted and the pass returns the error of the writer.
\<close>

theorem status_change_is_written_and_requeued:
  "updated (setStatus now status reason message l)
   \<and> requeue (setStatus now status reason message l)
   \<and> CondVersion (last (Conditions (GetFullStatus (setStatus now status reason message l))))
       = SpecVersion (GetSpec l)
   \<and> StatusVersion (GetFullStatus (setStatus now status reason message l)) = SpecVersion (GetSpec l)
   \<and> GetSpec (setStatus now status reason message l) = GetSpec l
   \<and> (Status (addonsLayer (layer (snd (reconcileLayer k now r al)))) \<noteq> Status al \<longrightarrow>
        persisted (snd (reconcileLayer k now r al)) = [addonsLayer (layer (snd (reconcileLayer k now r al)))]
        \<and> Requeue (fst (fst (reconcileLayer k now r al)))
        \<and> StatusVersion (Status (addonsLayer (layer (snd (reconcileLayer k now r al)))))
            = SpecVersion (Spec al)
        \<and> snd (fst (reconcileLayer k now r al))
            = StatusWriterUpdate r (addonsLayer (layer (snd (reconcileLayer k now r al))))
        \<and> stored (snd (reconcileLayer k now r al))
            = (if StatusWriterUpdate r (addonsLayer (layer (snd (reconcileLayer k now r al)))) = None
               then [addonsLayer (layer (snd (reconcileLayer k now r al)))] else []))"
proof -
  have a: "updated (setStatus now status reason message l)
      \<and> requeue (setStatus now status reason message l)
      \<and> CondVersion (last (Conditions (GetFullStatus (setStatus now status reason message l))))
          = SpecVersion (GetSpec l)
      \<and> StatusVersion (GetFullStatus (setStatus now status reason message l)) = SpecVersion (GetSpec l)
      \<and> GetSpec (setStatus now status reason message l) = GetSpec l"
    by (simp add: GetFullStatus_def GetSpec_def setStatus_updated setStatus_requeue
        setStatus_Conditions setStatus_StatusVersion setStatus_Spec)
  have b: "Status (addonsLayer (layer (snd (reconcileLayer k now r al)))) \<noteq> Status al \<longrightarrow>
        persisted (snd (reconcileLayer k now r al)) = [addonsLayer (layer (snd (reconcileLayer k now r al)))]
        \<and> Requeue (fst (fst (reconcileLayer k now r al)))
        \<and> StatusVersion (Status (addonsLayer (layer (snd (reconcileLayer k now r al)))))
            = SpecVersion (Spec al)
        \<and> snd (fst (reconcileLayer k now r al))
            = StatusWriterUpdate r (addonsLayer (layer (snd (reconcileLayer k now r al))))
        \<and> stored (snd (reconcileLayer k now r al))
            = (if StatusWriterUpdate r (addonsLayer (layer (snd (reconcileLayer k now r al)))) = None
               then [addonsLayer (layer (snd (reconcileLayer k now r al)))] else [])"
    using tracked_reconcileLayer [of al k now r] reconcileLayer_persisted [of k now r al]
      reconcileLayer_Requeue [of k now r al] reconcileLayer_stored [of k now r al]
      reconcileLayer_rerr [of k now r al]
    by (auto simp: tracked_def)
  from a b show ?thesis by blast
qed

theorem status_change_is_written_and_requeued_witness:
  "Status (addonsLayer (layer (snd (reconcileLayer texts0 0 rc_fresh layer_x)))) \<noteq> Status layer_x
   \<and> StatusWriterUpdate rc_fresh (addonsLayer (layer (snd (reconcileLayer texts0 0 rc_fresh layer_x)))) = None
   \<and> persisted (snd (reconcileLayer texts0 0 rc_fresh layer_x))
       = [addonsLayer (layer (snd (reconcileLayer texts0 0 rc_fresh layer_x)))]
   \<and> stored (snd (reconcileLayer texts0 0 rc_fresh layer_x))
       = [addonsLayer (layer (snd (reconcileLayer texts0 0 rc_fresh layer_x)))]
   \<and> snd (fst (reconcileLayer texts0 0 rc_fresh layer_x)) = None
   \<and> Requeue (fst (fst (reconcileLayer texts0 0 rc_fresh layer_x)))
   \<and> StatusVersion (Status (addonsLayer (layer (snd (reconcileLayer texts0 0 rc_fresh layer_x)))))
       = SpecVersion (Spec layer_x)"
proof -
  have g: "GetStatus (layer (snd (reconcileLayer texts0 0 rc_fresh layer_x))) = DeployedCondition"
    by (simp add: layer_defs controller_defs condition_defs rc_defs input_defs Let_def)
  then have c: "Status (addonsLayer (layer (snd (reconcileLayer texts0 0 rc_fresh layer_x))))
      \<noteq> Status layer_x"
    by (auto simp: GetStatus_def layer_x_def DeployedCondition_def)
  have w: "StatusWriterUpdate rc_fresh
      (addonsLayer (layer (snd (reconcileLayer texts0 0 rc_fresh layer_x)))) = None"
    by (simp add: rc_defs reconciler_of_def)
  show ?thesis
    using status_change_is_written_and_requeued [where k = texts0 and now = 0 and r = rc_fresh
        and al = layer_x] c w
    by simp
qed

end
